theory Spec2Isabelle
  imports Main "HOL-Library.Char_ord" "HOL-Library.List_Lexorder"
begin

section \<open>The toolbar of the CORE GUI (daemon/core/gui/toolbar.py)\<close>

text \<open>
  The toolbar is a Tk widget: its methods mutate the widgets they own and call into the
  application (menubar, canvas, session client, dialogs). The embedding passes the whole
  state explicitly: a store of button widgets indexed by object identity, the two button
  bars, the toolbar's own fields, a record of what the collaborators were told, and the
  effects made, in order.
  No method of the source raises or returns early, so every method is a total state
  transformer.
\<close>

subsection \<open>Constants and enumerations\<close>

definition TOOLBAR_SIZE :: nat where
  "TOOLBAR_SIZE = 32"

definition PICKER_SIZE :: nat where
  "PICKER_SIZE = 24"

datatype NodeTypeEnum = NodeTypeEnum_NODE | NodeTypeEnum_NETWORK | NodeTypeEnum_OTHER

text \<open>The members of \<^verbatim>\<open>GraphMode\<close>, \<^verbatim>\<open>ShapeType\<close> and \<^verbatim>\<open>ImageEnum\<close> that the toolbar names;
  \<open>ImageEnum_member\<close> stands for every other icon a node description may carry.\<close>

datatype GraphMode = GraphMode_SELECT | GraphMode_EDGE | GraphMode_NODE | GraphMode_ANNOTATION

datatype ShapeType = ShapeType_MARKER | ShapeType_OVAL | ShapeType_RECTANGLE | ShapeType_TEXT

datatype ImageEnum =
    ImageEnum_START | ImageEnum_SELECT | ImageEnum_LINK | ImageEnum_ROUTER | ImageEnum_HUB
  | ImageEnum_MARKER | ImageEnum_OVAL | ImageEnum_RECTANGLE | ImageEnum_TEXT
  | ImageEnum_STOP | ImageEnum_RUN | ImageEnum_OBSERVE | ImageEnum_member string

text \<open>Modelled from the spec: the icon provider (\<^verbatim>\<open>app.get_icon(enum, size)\<close>,
  \<^verbatim>\<open>app.get_custom_icon(file, size)\<close>) is outside this file; it returns an image rendered for
  the requested size. An image is known by what the provider was asked for, the arguments
  recorded as passed (a node description may carry \<^verbatim>\<open>None\<close> in either field).\<close>

datatype PhotoImage = Icon "ImageEnum option" nat | CustomIcon "string option" nat

definition get_icon :: "ImageEnum option \<Rightarrow> nat \<Rightarrow> PhotoImage" where
  "get_icon image_enum width = Icon image_enum width"

definition get_custom_icon :: "string option \<Rightarrow> nat \<Rightarrow> PhotoImage" where
  "get_custom_icon image_file width = CustomIcon image_file width"

record NodeDraw =
  nd_label :: string
  nd_image_enum :: "ImageEnum option"
  nd_image_file :: "string option"

text \<open>Python truth values: an enum member is true, \<^verbatim>\<open>None\<close> is false; a string is true
  unless it is empty.\<close>

fun truthy_enum :: "ImageEnum option \<Rightarrow> bool" where
  "truthy_enum None = False"
| "truthy_enum (Some e) = True"

fun truthy_str :: "string option \<Rightarrow> bool" where
  "truthy_str None = False"
| "truthy_str (Some s) = (s \<noteq> [])"

subsection \<open>Widgets\<close>

datatype tk_state = NORMAL | DISABLED

text \<open>The handlers a toolbar button is created with (\<^verbatim>\<open>command=func\<close>).\<close>

datatype command =
    Cmd_click_start | Cmd_click_selection | Cmd_click_link | Cmd_draw_node_picker
  | Cmd_draw_network_picker | Cmd_draw_annotation_picker | Cmd_click_stop
  | Cmd_click_runtime_selection | Cmd_click_marker_button | Cmd_click_run_button

record widget =
  w_state :: tk_state
  w_pressed :: bool
  w_image :: "PhotoImage option"
  w_command :: "command option"
  w_tooltip :: string
  w_menu :: "string list"

type_synonym widget_store = "nat \<Rightarrow> widget"

record ButtonBar =
  children :: "nat list"
  radio_buttons :: "nat list"

datatype frame_ref = Design_frame | Runtime_frame

text \<open>\<^verbatim>\<open>ButtonBar.__init__\<close>, \<^verbatim>\<open>ButtonBar.create_button\<close> and \<^verbatim>\<open>ButtonBar.select_radio\<close>.
  A new button is a new object: its identity is the next free index of the store.\<close>

definition ButtonBar_init :: ButtonBar where
  "ButtonBar_init = \<lparr>children = [], radio_buttons = []\<rparr>"

definition create_button ::
  "ImageEnum \<Rightarrow> command \<Rightarrow> string \<Rightarrow> bool \<Rightarrow> ButtonBar \<times> widget_store \<times> nat
     \<Rightarrow> nat \<times> ButtonBar \<times> widget_store \<times> nat" where
  "create_button image_enum func tooltip radio g =
     (case g of (bar, ws, n) \<Rightarrow>
       let image = get_icon (Some image_enum) TOOLBAR_SIZE;
           button = n;
           w = \<lparr>w_state = NORMAL, w_pressed = False, w_image = Some image,
                w_command = Some func, w_tooltip = tooltip, w_menu = []\<rparr>;
           bar1 = bar\<lparr>children := children bar @ [button]\<rparr>;
           bar2 = (if radio then bar1\<lparr>radio_buttons := radio_buttons bar1 @ [button]\<rparr> else bar1)
       in (button, bar2, ws(button := w), Suc n))"

definition set_pressed :: "bool \<Rightarrow> nat \<Rightarrow> widget_store \<Rightarrow> widget_store" where
  "set_pressed p button ws = ws(button := (ws button)\<lparr>w_pressed := p\<rparr>)"

definition select_radio :: "ButtonBar \<Rightarrow> nat \<Rightarrow> widget_store \<Rightarrow> widget_store" where
  "select_radio bar selected ws =
     set_pressed True selected (fold (set_pressed False) (radio_buttons bar) ws)"

subsection \<open>Pickers, dialogs and the application\<close>

text \<open>A picker option button carries the callback bound to its \<^verbatim>\<open><ButtonRelease-1>\<close>:
  \<^verbatim>\<open>partial(self.update_button, button, node_draw, type)\<close> or
  \<^verbatim>\<open>partial(self.update_annotation, shape_type, image_enum)\<close>, applied to the bar image.\<close>

datatype picker_func =
    Update_button nat NodeDraw NodeTypeEnum
  | Update_annotation ShapeType ImageEnum

record picker_button =
  pb_label :: string
  pb_image :: PhotoImage
  pb_bar_image :: PhotoImage
  pb_func :: picker_func

record PickerFrame =
  pf_button :: nat
  pf_buttons :: "picker_button list"
  pf_placed :: bool
  pf_destroyed :: bool

datatype dialog_kind = MarkerDialog | RunToolDialog

record dialog =
  dlg_kind :: dialog_kind
  dlg_shown :: bool
  dlg_destroyed :: bool

datatype task_func = Core_start_session | Core_stop_session

datatype task_callback = Cb_start_callback | Cb_stop_callback

record ProgressTask =
  task_title :: string
  task_func :: task_func
  task_callback :: task_callback

datatype core_call = Core_set_metadata | Core_show_mobility_players | Core_close_mobility_players

record StartSessionResponse =
  result :: bool
  exceptions :: "string list"

record StopSessionResponse =
  stop_result :: bool

text \<open>What the toolbar reads from and writes to the application: the menubar's state as last
  switched, the canvas attributes, the calls made to the session client, the errors shown,
  the tasks started, the node tables, and the Tk event machinery the picker uses
  (\<^verbatim>\<open>after\<close>, \<^verbatim>\<open>bind_all\<close>, the pointer grab).\<close>

record Application =
  menubar_is_runtime :: bool
  canvas_mode :: GraphMode
  canvas_node_draw :: "NodeDraw option"
  canvas_annotation_type :: "ShapeType option"
  canvas_stopped_session :: nat
  core_calls :: "core_call list"
  custom_nodes :: "(string \<times> NodeDraw) list"
  NODES :: "NodeDraw list"
  NETWORK_NODES :: "NodeDraw list"
  shown_errors :: "(string \<times> string) list"
  started_tasks :: "ProgressTask list"
  after_queue :: "nat list"
  bind_all_release :: "nat option"
  grab :: "nat option"

text \<open>Modelled from the spec: the menubar, the error dialog, the session client and the canvas
  are collaborators outside this file. A call to one of them is recorded in the
  application: the menubar keeps the state it was last switched to, an error shown and a
  call to the session client are appended to their logs, and \<^verbatim>\<open>stopped_session()\<close> is
  counted.\<close>

definition change_menubar_item_state :: "bool \<Rightarrow> Application \<Rightarrow> Application" where
  "change_menubar_item_state is_runtime a = a\<lparr>menubar_is_runtime := is_runtime\<rparr>"

definition show_error :: "string \<Rightarrow> string \<Rightarrow> Application \<Rightarrow> Application" where
  "show_error title message a = a\<lparr>shown_errors := shown_errors a @ [(title, message)]\<rparr>"

definition core_call :: "core_call \<Rightarrow> Application \<Rightarrow> Application" where
  "core_call c a = a\<lparr>core_calls := core_calls a @ [c]\<rparr>"

definition stopped_session :: "Application \<Rightarrow> Application" where
  "stopped_session a = a\<lparr>canvas_stopped_session := Suc (canvas_stopped_session a)\<rparr>"

text \<open>Modelled from the spec: \<^verbatim>\<open>core.gui.task.ProgressTask\<close> is not part of this file. Its
  \<^verbatim>\<open>start()\<close> puts the operation in flight; the task stays pending until its completion
  callback runs.\<close>

definition ProgressTask_start :: "ProgressTask \<Rightarrow> Application \<Rightarrow> Application" where
  "ProgressTask_start task a = a\<lparr>started_tasks := started_tasks a @ [task]\<rparr>"

text \<open>The order in which a method does things matters when a session is started or stopped.
  Each call on one of these collaborators, each assignment to a canvas attribute and each
  \<^verbatim>\<open>configure(state=...)\<close> of a button is an effect; the toolbar state keeps the effects in
  the order they were made.\<close>

datatype effect =
    Menubar_change_menubar_item_state bool
  | Canvas_mode GraphMode
  | Canvas_node_draw NodeDraw
  | Canvas_annotation_type ShapeType
  | Canvas_stopped_session
  | Core_call core_call
  | Show_error string string
  | Task_start ProgressTask
  | Configure_state nat tk_state

text \<open>What an effect does to the application (a button's \<^verbatim>\<open>configure\<close> does nothing to it).\<close>

fun collaborator_call :: "effect \<Rightarrow> Application \<Rightarrow> Application" where
  "collaborator_call (Menubar_change_menubar_item_state is_runtime) a =
     change_menubar_item_state is_runtime a"
| "collaborator_call (Canvas_mode m) a = a\<lparr>canvas_mode := m\<rparr>"
| "collaborator_call (Canvas_node_draw node_draw) a = a\<lparr>canvas_node_draw := Some node_draw\<rparr>"
| "collaborator_call (Canvas_annotation_type shape_type) a =
     a\<lparr>canvas_annotation_type := Some shape_type\<rparr>"
| "collaborator_call Canvas_stopped_session a = stopped_session a"
| "collaborator_call (Core_call c) a = core_call c a"
| "collaborator_call (Show_error title message) a = show_error title message a"
| "collaborator_call (Task_start task) a = ProgressTask_start task a"
| "collaborator_call (Configure_state button st) a = a"

text \<open>Python's \<^verbatim>\<open>sep.join(xs)\<close>.\<close>

fun join :: "string \<Rightarrow> string list \<Rightarrow> string" where
  "join sep [] = []"
| "join sep [x] = x"
| "join sep (x # y # ys) = x @ sep @ join sep (y # ys)"

definition newline :: string where
  "newline = [CHR 0x0A]"

subsection \<open>The toolbar\<close>

record Toolbar =
  app :: Application
  widgets :: widget_store
  num_widgets :: nat
  play_button :: nat
  select_button :: nat
  link_button :: nat
  node_button :: nat
  network_button :: nat
  annotation_button :: nat
  runtime_select_button :: nat
  stop_button :: nat
  runtime_marker_button :: nat
  run_command_button :: nat
  design_frame :: ButtonBar
  runtime_frame :: ButtonBar
  raised :: frame_ref
  picker :: "nat option"
  pickers :: "PickerFrame list"
  marker_tool :: "nat option"
  dialogs :: "dialog list"
  node_enum :: "ImageEnum option"
  node_file :: "string option"
  network_enum :: "ImageEnum option"
  annotation_enum :: "ImageEnum option"
  effects :: "effect list"

text \<open>To perform an effect is to make the call and to note it.\<close>

definition perform :: "effect \<Rightarrow> Toolbar \<Rightarrow> Toolbar" where
  "perform e t = t\<lparr>app := collaborator_call e (app t), effects := effects t @ [e]\<rparr>"

text \<open>\<^verbatim>\<open>enable_buttons\<close>: one \<^verbatim>\<open>child.configure(state=state)\<close> for each child of the frame, in
  the order of the children.\<close>

definition configure_state :: "tk_state \<Rightarrow> nat \<Rightarrow> Toolbar \<Rightarrow> Toolbar" where
  "configure_state st child t =
     perform (Configure_state child st)
       (t\<lparr>widgets := (widgets t)(child := (widgets t child)\<lparr>w_state := st\<rparr>)\<rparr>)"

definition enable_buttons :: "ButtonBar \<Rightarrow> bool \<Rightarrow> Toolbar \<Rightarrow> Toolbar" where
  "enable_buttons frame enabled t =
     (let st = (if enabled then NORMAL else DISABLED)
      in fold (configure_state st) (children frame) t)"

subsection \<open>\<^verbatim>\<open>PickerFrame\<close>\<close>

text \<open>A picker is a new object; its identity is its index in \<open>pickers\<close>.\<close>

definition PickerFrame_init :: "nat \<Rightarrow> Toolbar \<Rightarrow> nat \<times> Toolbar" where
  "PickerFrame_init button t =
     (length (pickers t),
      t\<lparr>pickers := pickers t @
           [\<lparr>pf_button = button, pf_buttons = [], pf_placed = False, pf_destroyed = False\<rparr>]\<rparr>)"

definition update_picker :: "nat \<Rightarrow> (PickerFrame \<Rightarrow> PickerFrame) \<Rightarrow> Toolbar \<Rightarrow> Toolbar" where
  "update_picker p f t = t\<lparr>pickers := (pickers t)[p := f (pickers t ! p)]\<rparr>"

definition PickerFrame__create_button ::
  "nat \<Rightarrow> string \<Rightarrow> PhotoImage \<Rightarrow> PhotoImage \<Rightarrow> picker_func \<Rightarrow> Toolbar \<Rightarrow> Toolbar" where
  "PickerFrame__create_button p lbl img bar_image func t =
     update_picker p (\<lambda>pf. pf\<lparr>pf_buttons := pf_buttons pf @
        [\<lparr>pb_label = lbl, pb_image = img, pb_bar_image = bar_image, pb_func = func\<rparr>]\<rparr>) t"

definition PickerFrame_create_button ::
  "nat \<Rightarrow> string \<Rightarrow> ImageEnum option \<Rightarrow> picker_func \<Rightarrow> Toolbar \<Rightarrow> Toolbar" where
  "PickerFrame_create_button p lbl image_enum func t =
     (let bar_image = get_icon image_enum TOOLBAR_SIZE;
          image = get_icon image_enum PICKER_SIZE
      in PickerFrame__create_button p lbl image bar_image func t)"

definition PickerFrame_create_custom_button ::
  "nat \<Rightarrow> string \<Rightarrow> string option \<Rightarrow> picker_func \<Rightarrow> Toolbar \<Rightarrow> Toolbar" where
  "PickerFrame_create_custom_button p lbl image_file func t =
     (let bar_image = get_custom_icon image_file TOOLBAR_SIZE;
          image = get_custom_icon image_file PICKER_SIZE
      in PickerFrame__create_button p lbl image bar_image func t)"

text \<open>\<^verbatim>\<open>show\<close> only schedules \<^verbatim>\<open>_show\<close> (\<^verbatim>\<open>self.button.after(0, self._show)\<close>).\<close>

definition PickerFrame_show :: "nat \<Rightarrow> Toolbar \<Rightarrow> Toolbar" where
  "PickerFrame_show p t = t\<lparr>app := (app t)\<lparr>after_queue := after_queue (app t) @ [p]\<rparr>\<rparr>"

text \<open>\<^verbatim>\<open>_show\<close> places the picker, binds every button release to \<^verbatim>\<open>self.destroy()\<close>
  (replacing an earlier binding), takes the grab and then blocks in \<^verbatim>\<open>wait_window()\<close>
  until the picker is destroyed; only then it runs \<^verbatim>\<open>unbind_all\<close>. The two halves are
  \<open>PickerFrame__show_open\<close> and \<open>PickerFrame__show_resume\<close>; between them the event loop
  runs other handlers. (\<^verbatim>\<open>wait_visibility()\<close> is taken to return at once: the picker is
  visible as soon as it is placed.)\<close>

definition PickerFrame__show_open :: "nat \<Rightarrow> Toolbar \<Rightarrow> Toolbar" where
  "PickerFrame__show_open p t =
     (let t1 = update_picker p (\<lambda>pf. pf\<lparr>pf_placed := True\<rparr>) t;
          t2 = t1\<lparr>app := (app t1)\<lparr>bind_all_release := Some p\<rparr>\<rparr>
      in t2\<lparr>app := (app t2)\<lparr>grab := Some p\<rparr>\<rparr>)"

definition PickerFrame__show_resume :: "Toolbar \<Rightarrow> Toolbar" where
  "PickerFrame__show_resume t = t\<lparr>app := (app t)\<lparr>bind_all_release := None\<rparr>\<rparr>"

text \<open>Tk's \<^verbatim>\<open>destroy()\<close>, which the release handler \<^verbatim>\<open>lambda e: self.destroy()\<close> calls: the
  window is gone and a grab it held is released.\<close>

definition PickerFrame_destroy :: "nat \<Rightarrow> Toolbar \<Rightarrow> Toolbar" where
  "PickerFrame_destroy p t =
     (let t1 = update_picker p (\<lambda>pf. pf\<lparr>pf_placed := False, pf_destroyed := True\<rparr>) t
      in t1\<lparr>app := (app t1)\<lparr>grab := (if grab (app t1) = Some p then None else grab (app t1))\<rparr>\<rparr>)"

definition is_open :: "PickerFrame \<Rightarrow> bool" where
  "is_open pf = (pf_placed pf \<and> \<not> pf_destroyed pf)"

definition open_pickers :: "Toolbar \<Rightarrow> nat list" where
  "open_pickers t = filter (\<lambda>p. is_open (pickers t ! p)) [0..<length (pickers t)]"

subsection \<open>Construction: \<^verbatim>\<open>Toolbar.__init__\<close>, \<^verbatim>\<open>draw\<close>, \<^verbatim>\<open>draw_design_frame\<close>,
  \<^verbatim>\<open>draw_runtime_frame\<close>\<close>

definition blank_widget :: widget where
  "blank_widget = \<lparr>w_state = NORMAL, w_pressed = False, w_image = None, w_command = None,
     w_tooltip = [], w_menu = []\<rparr>"

definition draw_design_frame ::
  "widget_store \<times> nat \<Rightarrow> (nat \<times> nat \<times> nat \<times> nat \<times> nat \<times> nat) \<times> ButtonBar \<times> widget_store \<times> nat" where
  "draw_design_frame g =
     (case g of (ws, n) \<Rightarrow>
       let (play, g1) = create_button ImageEnum_START Cmd_click_start ''Start Session'' False
                          (ButtonBar_init, ws, n);
           (select, g2) = create_button ImageEnum_SELECT Cmd_click_selection ''Selection Tool'' True g1;
           (link, g3) = create_button ImageEnum_LINK Cmd_click_link ''Link Tool'' True g2;
           (node, g4) = create_button ImageEnum_ROUTER Cmd_draw_node_picker ''Container Nodes'' True g3;
           (network, g5) = create_button ImageEnum_HUB Cmd_draw_network_picker ''Link Layer Nodes'' True g4;
           (annotation, g6) = create_button ImageEnum_MARKER Cmd_draw_annotation_picker
                          ''Annotation Tools'' True g5
       in ((play, select, link, node, network, annotation), g6))"

definition draw_runtime_frame ::
  "widget_store \<times> nat \<Rightarrow> (nat \<times> nat \<times> nat \<times> nat) \<times> ButtonBar \<times> widget_store \<times> nat" where
  "draw_runtime_frame g =
     (case g of (ws, n) \<Rightarrow>
       let (stop, g1) = create_button ImageEnum_STOP Cmd_click_stop ''Stop Session'' False
                          (ButtonBar_init, ws, n);
           (runtime_select, g2) = create_button ImageEnum_SELECT Cmd_click_runtime_selection
                          ''Selection Tool'' True g1;
           (runtime_marker, g3) = create_button ImageEnum_MARKER Cmd_click_marker_button
                          ''Marker Tool'' True g2;
           (run_command, g4) = create_button ImageEnum_RUN Cmd_click_run_button ''Run Tool'' False g3
       in ((stop, runtime_select, runtime_marker, run_command), g4))"

text \<open>The state once \<^verbatim>\<open>Toolbar.__init__\<close> has returned: both frames drawn, the design frame
  raised, \<^verbatim>\<open>node_enum\<close>, \<^verbatim>\<open>network_enum\<close> and \<^verbatim>\<open>annotation_enum\<close> set by
  \<^verbatim>\<open>draw_design_frame\<close>, every other field still \<^verbatim>\<open>None\<close>.\<close>

definition Toolbar_init :: "Application \<Rightarrow> Toolbar" where
  "Toolbar_init a =
     (case draw_design_frame (\<lambda>_. blank_widget, 0) of
        ((play, select, link, node, network, annotation), design, ws1, n1) \<Rightarrow>
     (case draw_runtime_frame (ws1, n1) of
        ((stop, runtime_select, runtime_marker, run_command), runtime, ws2, n2) \<Rightarrow>
       \<lparr>app = a, widgets = ws2, num_widgets = n2,
        play_button = play, select_button = select, link_button = link, node_button = node,
        network_button = network, annotation_button = annotation,
        runtime_select_button = runtime_select, stop_button = stop,
        runtime_marker_button = runtime_marker, run_command_button = run_command,
        design_frame = design, runtime_frame = runtime, raised = Design_frame,
        picker = None, pickers = [], marker_tool = None, dialogs = [],
        node_enum = Some ImageEnum_ROUTER, node_file = None,
        network_enum = Some ImageEnum_HUB, annotation_enum = Some ImageEnum_MARKER,
        effects = []\<rparr>))"

subsection \<open>The methods of \<^verbatim>\<open>Toolbar\<close>\<close>

definition set_image :: "nat \<Rightarrow> PhotoImage \<Rightarrow> widget_store \<Rightarrow> widget_store" where
  "set_image button img ws = ws(button := (ws button)\<lparr>w_image := Some img\<rparr>)"

definition click_selection :: "Toolbar \<Rightarrow> Toolbar" where
  "click_selection t =
     (let t1 = t\<lparr>widgets := select_radio (design_frame t) (select_button t) (widgets t)\<rparr>
      in perform (Canvas_mode GraphMode_SELECT) t1)"

definition click_runtime_selection :: "Toolbar \<Rightarrow> Toolbar" where
  "click_runtime_selection t =
     (let t1 = t\<lparr>widgets := select_radio (runtime_frame t) (runtime_select_button t) (widgets t)\<rparr>
      in perform (Canvas_mode GraphMode_SELECT) t1)"

definition click_link :: "Toolbar \<Rightarrow> Toolbar" where
  "click_link t =
     (let t1 = t\<lparr>widgets := select_radio (design_frame t) (link_button t) (widgets t)\<rparr>
      in perform (Canvas_mode GraphMode_EDGE) t1)"

definition click_start :: "Toolbar \<Rightarrow> Toolbar" where
  "click_start t =
     (let t1 = perform (Menubar_change_menubar_item_state True) t;
          t2 = perform (Canvas_mode GraphMode_SELECT) t1;
          t3 = enable_buttons (design_frame t2) False t2;
          task = \<lparr>task_title = ''Start'', task_func = Core_start_session,
                  task_callback = Cb_start_callback\<rparr>
      in perform (Task_start task) t3)"

definition set_runtime :: "Toolbar \<Rightarrow> Toolbar" where
  "set_runtime t =
     (let t1 = enable_buttons (runtime_frame t) True t;
          t2 = t1\<lparr>raised := Runtime_frame\<rparr>
      in click_runtime_selection t2)"

definition set_design :: "Toolbar \<Rightarrow> Toolbar" where
  "set_design t =
     (let t1 = enable_buttons (design_frame t) True t;
          t2 = t1\<lparr>raised := Design_frame\<rparr>
      in click_selection t2)"

definition start_callback :: "StartSessionResponse \<Rightarrow> Toolbar \<Rightarrow> Toolbar" where
  "start_callback response t =
     (if result response then
        (let t1 = set_runtime t;
             t2 = perform (Core_call Core_set_metadata) t1
         in perform (Core_call Core_show_mobility_players) t2)
      else
        (let t1 = enable_buttons (design_frame t) True t;
             message = join newline (exceptions response)
         in perform (Show_error ''Start Session Error'' message) t1))"

definition click_stop :: "Toolbar \<Rightarrow> Toolbar" where
  "click_stop t =
     (let t1 = perform (Menubar_change_menubar_item_state False) t;
          t2 = perform (Core_call Core_close_mobility_players) t1;
          t3 = enable_buttons (runtime_frame t2) False t2;
          task = \<lparr>task_title = ''Stop'', task_func = Core_stop_session,
                  task_callback = Cb_stop_callback\<rparr>
      in perform (Task_start task) t3)"

definition stop_callback :: "StopSessionResponse \<Rightarrow> Toolbar \<Rightarrow> Toolbar" where
  "stop_callback response t =
     (let t1 = set_design t
      in perform Canvas_stopped_session t1)"

definition update_button :: "nat \<Rightarrow> NodeDraw \<Rightarrow> NodeTypeEnum \<Rightarrow> PhotoImage \<Rightarrow> Toolbar \<Rightarrow> Toolbar" where
  "update_button button node_draw type_enum img t =
     (let t1 = t\<lparr>widgets := set_image button img (widgets t)\<rparr>;
          t2 = perform (Canvas_mode GraphMode_NODE) t1;
          t3 = perform (Canvas_node_draw node_draw) t2
      in if type_enum = NodeTypeEnum_NODE then
           (if truthy_enum (nd_image_enum node_draw) then
              t3\<lparr>node_enum := nd_image_enum node_draw, node_file := None\<rparr>
            else if truthy_str (nd_image_file node_draw) then
              t3\<lparr>node_file := nd_image_file node_draw, node_enum := None\<rparr>
            else t3)
         else if type_enum = NodeTypeEnum_NETWORK then
           t3\<lparr>network_enum := nd_image_enum node_draw\<rparr>
         else t3)"

text \<open>The dialogs are new objects, kept in \<open>dialogs\<close> by index.\<close>

definition new_dialog :: "dialog_kind \<Rightarrow> Toolbar \<Rightarrow> nat \<times> Toolbar" where
  "new_dialog kind t =
     (length (dialogs t),
      t\<lparr>dialogs := dialogs t @ [\<lparr>dlg_kind = kind, dlg_shown = False, dlg_destroyed = False\<rparr>]\<rparr>)"

definition dialog_show :: "nat \<Rightarrow> Toolbar \<Rightarrow> Toolbar" where
  "dialog_show d t = t\<lparr>dialogs := (dialogs t)[d := (dialogs t ! d)\<lparr>dlg_shown := True\<rparr>]\<rparr>"

definition dialog_destroy :: "nat \<Rightarrow> Toolbar \<Rightarrow> Toolbar" where
  "dialog_destroy d t = t\<lparr>dialogs := (dialogs t)[d := (dialogs t ! d)\<lparr>dlg_destroyed := True\<rparr>]\<rparr>"

text \<open>\<^verbatim>\<open>is_marker\<close> and the labels \<^verbatim>\<open>ShapeType.value\<close> are imported from
  \<^verbatim>\<open>core.gui.graph.shapeutils\<close>, outside this file: the marker test is the comparison with
  \<^verbatim>\<open>ShapeType.MARKER\<close> and the labels are the lower-case names. No property below depends on
  either.\<close>

definition is_marker :: "ShapeType \<Rightarrow> bool" where
  "is_marker shape_type = (shape_type = ShapeType_MARKER)"

fun ShapeType_value :: "ShapeType \<Rightarrow> string" where
  "ShapeType_value ShapeType_MARKER = ''marker''"
| "ShapeType_value ShapeType_OVAL = ''oval''"
| "ShapeType_value ShapeType_RECTANGLE = ''rectangle''"
| "ShapeType_value ShapeType_TEXT = ''text''"

definition update_annotation :: "ShapeType \<Rightarrow> ImageEnum \<Rightarrow> PhotoImage \<Rightarrow> Toolbar \<Rightarrow> Toolbar" where
  "update_annotation shape_type image_enum img t =
     (let t1 = t\<lparr>widgets := set_image (annotation_button t) img (widgets t)\<rparr>;
          t2 = perform (Canvas_mode GraphMode_ANNOTATION) t1;
          t3 = perform (Canvas_annotation_type shape_type) t2;
          t4 = t3\<lparr>annotation_enum := Some image_enum\<rparr>
      in if is_marker shape_type then
           (let t5 = (case marker_tool t4 of Some d \<Rightarrow> dialog_destroy d t4 | None \<Rightarrow> t4);
                (d, t6) = new_dialog MarkerDialog t5;
                t7 = t6\<lparr>marker_tool := Some d\<rparr>
            in dialog_show d t7)
         else t4)"

definition click_run_button :: "Toolbar \<Rightarrow> Toolbar" where
  "click_run_button t = (let (d, t1) = new_dialog RunToolDialog t in dialog_show d t1)"

definition click_marker_button :: "Toolbar \<Rightarrow> Toolbar" where
  "click_marker_button t =
     (let t1 = t\<lparr>widgets := select_radio (runtime_frame t) (runtime_marker_button t) (widgets t)\<rparr>;
          t2 = perform (Canvas_mode GraphMode_ANNOTATION) t1;
          t3 = perform (Canvas_annotation_type ShapeType_MARKER) t2;
          t4 = (case marker_tool t3 of Some d \<Rightarrow> dialog_destroy d t3 | None \<Rightarrow> t3);
          (d, t5) = new_dialog MarkerDialog t4;
          t6 = t5\<lparr>marker_tool := Some d\<rparr>
      in dialog_show d t6)"

definition draw_node_picker :: "Toolbar \<Rightarrow> Toolbar" where
  "draw_node_picker t =
     (let t1 = t\<lparr>widgets := select_radio (design_frame t) (node_button t) (widgets t)\<rparr>;
          (p, t2) = PickerFrame_init (node_button t1) t1;
          t3 = t2\<lparr>picker := Some p\<rparr>;
          t4 = fold (\<lambda>node_draw.
                 PickerFrame_create_button p (nd_label node_draw) (nd_image_enum node_draw)
                   (Update_button (node_button t3) node_draw NodeTypeEnum_NODE))
               (NODES (app t3)) t3;
          t5 = fold (\<lambda>name.
                 case map_of (custom_nodes (app t4)) name of
                   None \<Rightarrow> id
                 | Some node_draw \<Rightarrow>
                     PickerFrame_create_custom_button p (nd_label node_draw) (nd_image_file node_draw)
                       (Update_button (node_button t3) node_draw NodeTypeEnum_NODE))
               (sort (remdups (map fst (custom_nodes (app t4))))) t4
      in PickerFrame_show p t5)"

definition draw_network_picker :: "Toolbar \<Rightarrow> Toolbar" where
  "draw_network_picker t =
     (let t1 = t\<lparr>widgets := select_radio (design_frame t) (network_button t) (widgets t)\<rparr>;
          (p, t2) = PickerFrame_init (network_button t1) t1;
          t3 = t2\<lparr>picker := Some p\<rparr>;
          t4 = fold (\<lambda>node_draw.
                 PickerFrame_create_button p (nd_label node_draw) (nd_image_enum node_draw)
                   (Update_button (network_button t3) node_draw NodeTypeEnum_NETWORK))
               (NETWORK_NODES (app t3)) t3
      in PickerFrame_show p t4)"

definition annotation_nodes :: "(ImageEnum \<times> ShapeType) list" where
  "annotation_nodes =
     [(ImageEnum_MARKER, ShapeType_MARKER), (ImageEnum_OVAL, ShapeType_OVAL),
      (ImageEnum_RECTANGLE, ShapeType_RECTANGLE), (ImageEnum_TEXT, ShapeType_TEXT)]"

definition draw_annotation_picker :: "Toolbar \<Rightarrow> Toolbar" where
  "draw_annotation_picker t =
     (let t1 = t\<lparr>widgets := select_radio (design_frame t) (annotation_button t) (widgets t)\<rparr>;
          (p, t2) = PickerFrame_init (annotation_button t1) t1;
          t3 = t2\<lparr>picker := Some p\<rparr>;
          t4 = fold (\<lambda>(image_enum, shape_type).
                 PickerFrame_create_button p (ShapeType_value shape_type) (Some image_enum)
                   (Update_annotation shape_type image_enum))
               annotation_nodes t3
      in PickerFrame_show p t4)"

definition observe_menu :: "string list" where
  "observe_menu =
     [''None'', ''processes'', ''ifconfig'', ''IPv4 routes'', ''IPv6 routes'',
      ''OSPFv2 neighbors'', ''OSPFv3 neighbors'', ''Listening sockets'', ''IPv4 MFC entries'',
      ''IPv6 MFC entries'', ''firewall rules'', ''IPSec policies'', ''docker logs'',
      ''OSPFv3 MDR level'', ''PIM neighbors'', ''Edit...'']"

definition create_observe_button :: "Toolbar \<Rightarrow> Toolbar" where
  "create_observe_button t =
     (let img = get_icon (Some ImageEnum_OBSERVE) TOOLBAR_SIZE;
          menu_button = num_widgets t;
          w = \<lparr>w_state = NORMAL, w_pressed = False, w_image = Some img, w_command = None,
               w_tooltip = [], w_menu = observe_menu\<rparr>
      in t\<lparr>widgets := (widgets t)(menu_button := w),
           num_widgets := Suc (num_widgets t),
           runtime_frame := (runtime_frame t)\<lparr>children := children (runtime_frame t) @ [menu_button]\<rparr>\<rparr>)"

definition scale_button :: "nat \<Rightarrow> ImageEnum option \<Rightarrow> string option \<Rightarrow> Toolbar \<Rightarrow> Toolbar" where
  "scale_button button image_enum image_file t =
     (let img = (if truthy_enum image_enum then Some (get_icon image_enum TOOLBAR_SIZE)
                 else if truthy_str image_file then Some (get_custom_icon image_file TOOLBAR_SIZE)
                 else None)
      in case img of
           Some i \<Rightarrow> t\<lparr>widgets := set_image button i (widgets t)\<rparr>
         | None \<Rightarrow> t)"

definition scale :: "Toolbar \<Rightarrow> Toolbar" where
  "scale t =
     (let t1 = scale_button (play_button t) (Some ImageEnum_START) None t;
          t2 = scale_button (select_button t1) (Some ImageEnum_SELECT) None t1;
          t3 = scale_button (link_button t2) (Some ImageEnum_LINK) None t2;
          t4 = (if truthy_enum (node_enum t3)
                then scale_button (node_button t3) (node_enum t3) None t3 else t3);
          t5 = (if truthy_str (node_file t4)
                then scale_button (node_button t4) None (node_file t4) t4 else t4);
          t6 = scale_button (network_button t5) (network_enum t5) None t5;
          t7 = scale_button (annotation_button t6) (annotation_enum t6) None t6;
          t8 = scale_button (runtime_select_button t7) (Some ImageEnum_SELECT) None t7;
          t9 = scale_button (stop_button t8) (Some ImageEnum_STOP) None t8;
          t10 = scale_button (runtime_marker_button t9) (Some ImageEnum_MARKER) None t9
      in scale_button (run_command_button t10) (Some ImageEnum_RUN) None t10)"

subsection \<open>The handlers Tk runs for a picker\<close>

text \<open>A picker option's binding is \<^verbatim>\<open>lambda e: func(bar_image)\<close>.\<close>

definition call_picker_func :: "picker_func \<Rightarrow> PhotoImage \<Rightarrow> Toolbar \<Rightarrow> Toolbar" where
  "call_picker_func func bar_image t =
     (case func of
        Update_button button node_draw type_enum \<Rightarrow> update_button button node_draw type_enum bar_image t
      | Update_annotation shape_type image_enum \<Rightarrow> update_annotation shape_type image_enum bar_image t)"

text \<open>The event loop runs the next scheduled \<^verbatim>\<open>_show\<close> up to its \<^verbatim>\<open>wait_window()\<close>.\<close>

definition run_after :: "Toolbar \<Rightarrow> Toolbar" where
  "run_after t =
     (case after_queue (app t) of
        [] \<Rightarrow> t
      | p # q \<Rightarrow> PickerFrame__show_open p (t\<lparr>app := (app t)\<lparr>after_queue := q\<rparr>\<rparr>))"

text \<open>A button release: over option \<open>i\<close> of the open picker \<open>p\<close> the option's own binding runs
  first; then the \<^verbatim>\<open>bind_all\<close> handler, if one is installed, destroys its picker, whose
  \<^verbatim>\<open>_show\<close> resumes.\<close>

definition button_release :: "(nat \<times> nat) option \<Rightarrow> Toolbar \<Rightarrow> Toolbar" where
  "button_release target t =
     (let t1 = (case target of
                  None \<Rightarrow> t
                | Some (p, i) \<Rightarrow>
                    if p < length (pickers t) \<and> is_open (pickers t ! p)
                       \<and> i < length (pf_buttons (pickers t ! p))
                    then (let b = pf_buttons (pickers t ! p) ! i
                          in call_picker_func (pb_func b) (pb_bar_image b) t)
                    else t)
      in case bind_all_release (app t1) of
           None \<Rightarrow> t1
         | Some q \<Rightarrow> PickerFrame__show_resume (PickerFrame_destroy q t1))"

subsection \<open>Runs of the toolbar\<close>

text \<open>Every entry point of the toolbar: its methods, called by a button's command, by a task's
  completion or by the application, and the two handlers of the picker.\<close>

datatype toolbar_call =
    Call_draw_node_picker
  | Call_click_selection
  | Call_click_runtime_selection
  | Call_click_start
  | Call_start_callback StartSessionResponse
  | Call_set_runtime
  | Call_set_design
  | Call_click_link
  | Call_update_button nat NodeDraw NodeTypeEnum PhotoImage
  | Call_draw_network_picker
  | Call_draw_annotation_picker
  | Call_create_observe_button
  | Call_click_stop
  | Call_stop_callback StopSessionResponse
  | Call_update_annotation ShapeType ImageEnum PhotoImage
  | Call_click_run_button
  | Call_click_marker_button
  | Call_scale_button nat "ImageEnum option" "string option"
  | Call_scale
  | Call_run_after
  | Call_button_release "(nat \<times> nat) option"

fun exec :: "toolbar_call \<Rightarrow> Toolbar \<Rightarrow> Toolbar" where
  "exec Call_draw_node_picker t = draw_node_picker t"
| "exec Call_click_selection t = click_selection t"
| "exec Call_click_runtime_selection t = click_runtime_selection t"
| "exec Call_click_start t = click_start t"
| "exec (Call_start_callback response) t = start_callback response t"
| "exec Call_set_runtime t = set_runtime t"
| "exec Call_set_design t = set_design t"
| "exec Call_click_link t = click_link t"
| "exec (Call_update_button button node_draw type_enum img) t =
     update_button button node_draw type_enum img t"
| "exec Call_draw_network_picker t = draw_network_picker t"
| "exec Call_draw_annotation_picker t = draw_annotation_picker t"
| "exec Call_create_observe_button t = create_observe_button t"
| "exec Call_click_stop t = click_stop t"
| "exec (Call_stop_callback response) t = stop_callback response t"
| "exec (Call_update_annotation shape_type image_enum img) t =
     update_annotation shape_type image_enum img t"
| "exec Call_click_run_button t = click_run_button t"
| "exec Call_click_marker_button t = click_marker_button t"
| "exec (Call_scale_button button image_enum image_file) t =
     scale_button button image_enum image_file t"
| "exec Call_scale t = scale t"
| "exec Call_run_after t = run_after t"
| "exec (Call_button_release target) t = button_release target t"

definition run :: "toolbar_call list \<Rightarrow> Toolbar \<Rightarrow> Toolbar" where
  "run calls t = fold exec calls t"

subsection \<open>Observations\<close>

definition all_enabled :: "ButtonBar \<Rightarrow> widget_store \<Rightarrow> bool" where
  "all_enabled frame ws = list_all (\<lambda>b. w_state (ws b) = NORMAL) (children frame)"

definition all_disabled :: "ButtonBar \<Rightarrow> widget_store \<Rightarrow> bool" where
  "all_disabled frame ws = list_all (\<lambda>b. w_state (ws b) = DISABLED) (children frame)"

definition pressed_radios :: "ButtonBar \<Rightarrow> widget_store \<Rightarrow> nat list" where
  "pressed_radios bar ws = filter (\<lambda>b. w_pressed (ws b)) (radio_buttons bar)"

text \<open>The toolbar keeps no phase variable. The session phase of the specification is read off
  the toolbar the way the specification describes it, by which button group is visible and
  whether it can be used: the design group in use is \<open>Design\<close>, the design group shown but
  switched off is \<open>Starting\<close>, and likewise \<open>Runtime\<close> and \<open>Stopping\<close> for the runtime group.\<close>

datatype SessionPhase = Design | Starting | Runtime | Stopping

definition spec_phase :: "Toolbar \<Rightarrow> SessionPhase" where
  "spec_phase t =
     (case raised t of
        Design_frame \<Rightarrow> if all_enabled (design_frame t) (widgets t) then Design else Starting
      | Runtime_frame \<Rightarrow> if all_enabled (runtime_frame t) (widgets t) then Runtime else Stopping)"

text \<open>The shape of the widget tree that construction establishes and no method disturbs: the two
  groups share no button, the radio buttons of a group are distinct children of it, and the
  toolbar's button fields are different buttons that point into the right group.\<close>

definition wf_toolbar :: "Toolbar \<Rightarrow> bool" where
  "wf_toolbar t =
     (set (children (design_frame t)) \<inter> set (children (runtime_frame t)) = {}
      \<and> distinct (radio_buttons (design_frame t))
      \<and> distinct (radio_buttons (runtime_frame t))
      \<and> set (radio_buttons (design_frame t)) \<subseteq> set (children (design_frame t))
      \<and> set (radio_buttons (runtime_frame t)) \<subseteq> set (children (runtime_frame t))
      \<and> play_button t \<in> set (children (design_frame t))
      \<and> select_button t \<in> set (radio_buttons (design_frame t))
      \<and> stop_button t \<in> set (children (runtime_frame t))
      \<and> runtime_select_button t \<in> set (radio_buttons (runtime_frame t))
      \<and> list_all (\<lambda>b. b < num_widgets t) (children (design_frame t))
      \<and> list_all (\<lambda>b. b < num_widgets t) (children (runtime_frame t))
      \<and> distinct [play_button t, select_button t, link_button t, node_button t,
            network_button t, annotation_button t, runtime_select_button t, stop_button t,
            runtime_marker_button t, run_command_button t])"

text \<open>The part of the state that \<open>wf_toolbar\<close> reads: the two button bars, the number of
  widgets and the toolbar's button fields.\<close>

definition widget_tree :: "Toolbar \<Rightarrow> ButtonBar \<times> ButtonBar \<times> nat \<times> nat list" where
  "widget_tree t =
     (design_frame t, runtime_frame t, num_widgets t,
      [play_button t, select_button t, link_button t, node_button t, network_button t,
       annotation_button t, runtime_select_button t, stop_button t, runtime_marker_button t,
       run_command_button t])"

text \<open>The node button's icon has exactly one source: either \<^verbatim>\<open>node_enum\<close> or a non-empty
  \<^verbatim>\<open>node_file\<close>, the other being \<^verbatim>\<open>None\<close>.\<close>

definition node_icon_inv :: "Toolbar \<Rightarrow> bool" where
  "node_icon_inv t =
     ((node_enum t = None) \<noteq> (node_file t = None) \<and> node_file t \<noteq> Some [])"

subsection \<open>A concrete application\<close>

text \<open>An application as the toolbar finds it at start-up, with two default nodes, two
  link-layer nodes and one custom node; used to run the definitions on concrete input.\<close>

definition app0 :: Application where
  "app0 =
     \<lparr>menubar_is_runtime = False, canvas_mode = GraphMode_SELECT, canvas_node_draw = None,
      canvas_annotation_type = None, canvas_stopped_session = 0, core_calls = [],
      custom_nodes =
        [(''mynode'', \<lparr>nd_label = ''mynode'', nd_image_enum = None, nd_image_file = Some ''my.png''\<rparr>)],
      NODES =
        [\<lparr>nd_label = ''router'', nd_image_enum = Some ImageEnum_ROUTER, nd_image_file = None\<rparr>,
         \<lparr>nd_label = ''host'', nd_image_enum = Some (ImageEnum_member ''HOST''), nd_image_file = None\<rparr>],
      NETWORK_NODES =
        [\<lparr>nd_label = ''hub'', nd_image_enum = Some ImageEnum_HUB, nd_image_file = None\<rparr>,
         \<lparr>nd_label = ''switch'', nd_image_enum = Some (ImageEnum_member ''SWITCH''), nd_image_file = None\<rparr>],
      shown_errors = [], started_tasks = [], after_queue = [], bind_all_release = None,
      grab = None\<rparr>"

definition start_failed :: "string list \<Rightarrow> StartSessionResponse" where
  "start_failed xs = \<lparr>result = False, exceptions = xs\<rparr>"

definition start_ok :: StartSessionResponse where
  "start_ok = \<lparr>result = True, exceptions = []\<rparr>"

section \<open>Properties\<close>

subsection \<open>The widget store\<close>

lemma fold_set_pressed:
  "fold (set_pressed p) bs ws b = (if b \<in> set bs then (ws b)\<lparr>w_pressed := p\<rparr> else ws b)"
  by (induction bs arbitrary: ws) (auto simp: set_pressed_def)

lemma select_radio_apply:
  "select_radio bar selected ws b =
     (if b = selected then (ws b)\<lparr>w_pressed := True\<rparr>
      else if b \<in> set (radio_buttons bar) then (ws b)\<lparr>w_pressed := False\<rparr> else ws b)"
  by (simp add: select_radio_def fold_set_pressed set_pressed_def)

lemma all_enabled_iff:
  "all_enabled frame ws \<longleftrightarrow> (\<forall>b \<in> set (children frame). w_state (ws b) = NORMAL)"
  by (simp add: all_enabled_def list_all_iff)

lemma all_disabled_iff:
  "all_disabled frame ws \<longleftrightarrow> (\<forall>b \<in> set (children frame). w_state (ws b) = DISABLED)"
  by (simp add: all_disabled_def list_all_iff)

subsection \<open>Effects and \<^verbatim>\<open>enable_buttons\<close>\<close>

lemma perform_fields [simp]:
  "app (perform e t) = collaborator_call e (app t)"
  "effects (perform e t) = effects t @ [e]"
  "widgets (perform e t) = widgets t"
  "num_widgets (perform e t) = num_widgets t"
  "play_button (perform e t) = play_button t"
  "select_button (perform e t) = select_button t"
  "link_button (perform e t) = link_button t"
  "node_button (perform e t) = node_button t"
  "network_button (perform e t) = network_button t"
  "annotation_button (perform e t) = annotation_button t"
  "runtime_select_button (perform e t) = runtime_select_button t"
  "stop_button (perform e t) = stop_button t"
  "runtime_marker_button (perform e t) = runtime_marker_button t"
  "run_command_button (perform e t) = run_command_button t"
  "design_frame (perform e t) = design_frame t"
  "runtime_frame (perform e t) = runtime_frame t"
  "raised (perform e t) = raised t"
  "picker (perform e t) = picker t"
  "pickers (perform e t) = pickers t"
  "marker_tool (perform e t) = marker_tool t"
  "dialogs (perform e t) = dialogs t"
  "node_enum (perform e t) = node_enum t"
  "node_file (perform e t) = node_file t"
  "network_enum (perform e t) = network_enum t"
  "annotation_enum (perform e t) = annotation_enum t"
  by (simp_all add: perform_def)

text \<open>\<^verbatim>\<open>enable_buttons\<close> in closed form: the state of every child is set, one \<^verbatim>\<open>configure\<close> per
  child is noted in the order of the children, and nothing else changes.\<close>

lemma fold_configure_state:
  "fold (configure_state st) bs t =
     t\<lparr>widgets := (\<lambda>b. if b \<in> set bs then (widgets t b)\<lparr>w_state := st\<rparr> else widgets t b),
       effects := effects t @ map (\<lambda>b. Configure_state b st) bs\<rparr>"
proof (induction bs arbitrary: t)
  case Nil
  show ?case by simp
next
  case (Cons x xs)
  let ?t = "configure_state st x t"
  have w: "(\<lambda>b. if b \<in> set xs then (widgets ?t b)\<lparr>w_state := st\<rparr> else widgets ?t b)
         = (\<lambda>b. if b \<in> set (x # xs) then (widgets t b)\<lparr>w_state := st\<rparr> else widgets t b)"
    by (auto simp: fun_eq_iff configure_state_def perform_def)
  have "fold (configure_state st) (x # xs) t = fold (configure_state st) xs ?t"
    by simp
  also have "\<dots> = ?t\<lparr>widgets := (\<lambda>b. if b \<in> set xs then (widgets ?t b)\<lparr>w_state := st\<rparr> else widgets ?t b),
       effects := effects ?t @ map (\<lambda>b. Configure_state b st) xs\<rparr>"
    by (rule Cons.IH)
  also have "\<dots> = t\<lparr>widgets := (\<lambda>b. if b \<in> set (x # xs) then (widgets t b)\<lparr>w_state := st\<rparr> else widgets t b),
       effects := effects t @ map (\<lambda>b. Configure_state b st) (x # xs)\<rparr>"
    unfolding w by (simp add: configure_state_def perform_def)
  finally show ?case .
qed

lemma enable_buttons_eq:
  "enable_buttons frame enabled t =
     t\<lparr>widgets := (\<lambda>b. if b \<in> set (children frame)
                         then (widgets t b)\<lparr>w_state := (if enabled then NORMAL else DISABLED)\<rparr>
                         else widgets t b),
       effects := effects t @
         map (\<lambda>b. Configure_state b (if enabled then NORMAL else DISABLED)) (children frame)\<rparr>"
  by (simp add: enable_buttons_def fold_configure_state)

lemma enable_buttons_apply:
  "widgets (enable_buttons frame enabled t) b =
     (if b \<in> set (children frame)
      then (widgets t b)\<lparr>w_state := (if enabled then NORMAL else DISABLED)\<rparr> else widgets t b)"
  by (simp add: enable_buttons_eq)

lemma enable_buttons_effects:
  "effects (enable_buttons frame enabled t) = effects t @
     map (\<lambda>b. Configure_state b (if enabled then NORMAL else DISABLED)) (children frame)"
  by (simp add: enable_buttons_eq)

lemma enable_buttons_fields [simp]:
  "app (enable_buttons frame enabled t) = app t"
  "num_widgets (enable_buttons frame enabled t) = num_widgets t"
  "play_button (enable_buttons frame enabled t) = play_button t"
  "select_button (enable_buttons frame enabled t) = select_button t"
  "link_button (enable_buttons frame enabled t) = link_button t"
  "node_button (enable_buttons frame enabled t) = node_button t"
  "network_button (enable_buttons frame enabled t) = network_button t"
  "annotation_button (enable_buttons frame enabled t) = annotation_button t"
  "runtime_select_button (enable_buttons frame enabled t) = runtime_select_button t"
  "stop_button (enable_buttons frame enabled t) = stop_button t"
  "runtime_marker_button (enable_buttons frame enabled t) = runtime_marker_button t"
  "run_command_button (enable_buttons frame enabled t) = run_command_button t"
  "design_frame (enable_buttons frame enabled t) = design_frame t"
  "runtime_frame (enable_buttons frame enabled t) = runtime_frame t"
  "raised (enable_buttons frame enabled t) = raised t"
  "picker (enable_buttons frame enabled t) = picker t"
  "pickers (enable_buttons frame enabled t) = pickers t"
  "marker_tool (enable_buttons frame enabled t) = marker_tool t"
  "dialogs (enable_buttons frame enabled t) = dialogs t"
  "node_enum (enable_buttons frame enabled t) = node_enum t"
  "node_file (enable_buttons frame enabled t) = node_file t"
  "network_enum (enable_buttons frame enabled t) = network_enum t"
  "annotation_enum (enable_buttons frame enabled t) = annotation_enum t"
  by (simp_all add: enable_buttons_eq)

subsection \<open>The toolbar as constructed\<close>

lemmas init_defs = Toolbar_init_def draw_design_frame_def draw_runtime_frame_def
  create_button_def ButtonBar_init_def Let_def blank_widget_def

lemma Toolbar_init_frames:
  "design_frame (Toolbar_init a) = \<lparr>children = [0, 1, 2, 3, 4, 5], radio_buttons = [1, 2, 3, 4, 5]\<rparr>"
  "runtime_frame (Toolbar_init a) = \<lparr>children = [6, 7, 8, 9], radio_buttons = [7, 8]\<rparr>"
  "num_widgets (Toolbar_init a) = 10"
  by (simp_all add: init_defs)

lemma Toolbar_init_buttons:
  "play_button (Toolbar_init a) = 0"
  "select_button (Toolbar_init a) = 1"
  "link_button (Toolbar_init a) = 2"
  "node_button (Toolbar_init a) = 3"
  "network_button (Toolbar_init a) = 4"
  "annotation_button (Toolbar_init a) = 5"
  "stop_button (Toolbar_init a) = 6"
  "runtime_select_button (Toolbar_init a) = 7"
  "runtime_marker_button (Toolbar_init a) = 8"
  "run_command_button (Toolbar_init a) = 9"
  by (simp_all add: init_defs)

lemma Toolbar_init_fields:
  "app (Toolbar_init a) = a"
  "raised (Toolbar_init a) = Design_frame"
  "picker (Toolbar_init a) = None"
  "pickers (Toolbar_init a) = []"
  "marker_tool (Toolbar_init a) = None"
  "dialogs (Toolbar_init a) = []"
  "node_enum (Toolbar_init a) = Some ImageEnum_ROUTER"
  "node_file (Toolbar_init a) = None"
  "network_enum (Toolbar_init a) = Some ImageEnum_HUB"
  "annotation_enum (Toolbar_init a) = Some ImageEnum_MARKER"
  by (simp_all add: init_defs)

text \<open>Every button is created enabled and unpressed, the runtime buttons included.\<close>

lemma Toolbar_init_widget:
  "w_state (widgets (Toolbar_init a) b) = NORMAL"
  "\<not> w_pressed (widgets (Toolbar_init a) b)"
  by (simp_all add: init_defs)

lemmas Toolbar_init_simps = Toolbar_init_frames Toolbar_init_buttons Toolbar_init_fields
  Toolbar_init_widget

lemma wf_toolbar_init: "wf_toolbar (Toolbar_init a)"
  by (simp add: wf_toolbar_def Toolbar_init_frames Toolbar_init_buttons)

subsection \<open>The radio group\<close>

text \<open>
  Claim C7. \<^verbatim>\<open>ButtonBar.select_radio\<close> is idempotent: selecting the same control twice in a
  row leaves the widget store exactly as selecting it once. After every call the chosen
  control is pressed and every other radio button of the group is unpressed, so the pressed
  radio buttons of the group are at most the chosen one.
\<close>

theorem select_radio_idempotent_single:
  "select_radio bar selected (select_radio bar selected ws) = select_radio bar selected ws
   \<and> w_pressed (select_radio bar selected ws selected)
   \<and> (\<forall>b \<in> set (radio_buttons bar). b \<noteq> selected \<longrightarrow> \<not> w_pressed (select_radio bar selected ws b))
   \<and> set (pressed_radios bar (select_radio bar selected ws)) \<subseteq> {selected}"
proof -
  have "select_radio bar selected (select_radio bar selected ws) b = select_radio bar selected ws b" for b
    by (simp add: select_radio_apply)
  then have idem: "select_radio bar selected (select_radio bar selected ws) = select_radio bar selected ws"
    by (rule ext)
  have sel: "w_pressed (select_radio bar selected ws selected)"
    by (simp add: select_radio_apply)
  have others: "\<forall>b \<in> set (radio_buttons bar). b \<noteq> selected \<longrightarrow> \<not> w_pressed (select_radio bar selected ws b)"
    by (simp add: select_radio_apply)
  from others have "set (pressed_radios bar (select_radio bar selected ws)) \<subseteq> {selected}"
    by (auto simp: pressed_radios_def)
  with idem sel others show ?thesis by blast
qed

theorem select_radio_idempotent_single_witness:
  "pressed_radios (design_frame (Toolbar_init app0))
     (select_radio (design_frame (Toolbar_init app0)) 2
        (select_radio (design_frame (Toolbar_init app0)) 2 (widgets (Toolbar_init app0)))) = [2]"
  using select_radio_idempotent_single
    [of "design_frame (Toolbar_init app0)" 2 "widgets (Toolbar_init app0)"]
  by (simp add: pressed_radios_def Toolbar_init_simps select_radio_apply)

subsection \<open>Starting and stopping a session\<close>


lemma click_start_fields:
  "app (click_start t) = (app t)\<lparr>menubar_is_runtime := True, canvas_mode := GraphMode_SELECT,
      started_tasks := started_tasks (app t) @
        [\<lparr>task_title = ''Start'', task_func = Core_start_session, task_callback = Cb_start_callback\<rparr>]\<rparr>"
  "widgets (click_start t) = widgets (enable_buttons (design_frame t) False t)"
  "design_frame (click_start t) = design_frame t"
  "runtime_frame (click_start t) = runtime_frame t"
  "raised (click_start t) = raised t"
  "play_button (click_start t) = play_button t"
  by (simp_all add: click_start_def Let_def change_menubar_item_state_def ProgressTask_start_def
      enable_buttons_eq cong: if_cong)

lemma click_stop_fields:
  "app (click_stop t) = (app t)\<lparr>menubar_is_runtime := False,
      core_calls := core_calls (app t) @ [Core_close_mobility_players],
      started_tasks := started_tasks (app t) @
        [\<lparr>task_title = ''Stop'', task_func = Core_stop_session, task_callback = Cb_stop_callback\<rparr>]\<rparr>"
  "widgets (click_stop t) = widgets (enable_buttons (runtime_frame t) False t)"
  "design_frame (click_stop t) = design_frame t"
  "runtime_frame (click_stop t) = runtime_frame t"
  "raised (click_stop t) = raised t"
  "stop_button (click_stop t) = stop_button t"
  by (simp_all add: click_stop_def Let_def change_menubar_item_state_def ProgressTask_start_def
      core_call_def enable_buttons_eq cong: if_cong)

text \<open>The effects of a start request, a stop request and a failed start completion, in the
  order they are made.\<close>

lemma click_start_effects:
  "effects (click_start t) =
     effects t @ [Menubar_change_menubar_item_state True, Canvas_mode GraphMode_SELECT]
       @ map (\<lambda>b. Configure_state b DISABLED) (children (design_frame t))
       @ [Task_start \<lparr>task_title = ''Start'', task_func = Core_start_session,
            task_callback = Cb_start_callback\<rparr>]"
  by (simp add: click_start_def Let_def enable_buttons_effects)

lemma click_stop_effects:
  "effects (click_stop t) =
     effects t @ [Menubar_change_menubar_item_state False, Core_call Core_close_mobility_players]
       @ map (\<lambda>b. Configure_state b DISABLED) (children (runtime_frame t))
       @ [Task_start \<lparr>task_title = ''Stop'', task_func = Core_stop_session,
            task_callback = Cb_stop_callback\<rparr>]"
  by (simp add: click_stop_def Let_def enable_buttons_effects)

text \<open>The newline-joined message, written without \<open>join\<close>: the first element, then each further
  element behind a newline character.\<close>

lemma join_newline:
  "join newline xs = (case xs of [] \<Rightarrow> [] | x # r \<Rightarrow> x @ concat (map (\<lambda>y. CHR 0x0A # y) r))"
  by (induction newline xs rule: join.induct) (simp_all add: newline_def)

lemma start_callback_failed_effects:
  assumes "\<not> result response"
  shows "effects (start_callback response t) =
     effects t @ map (\<lambda>b. Configure_state b NORMAL) (children (design_frame t))
       @ [Show_error ''Start Session Error''
            (case exceptions response of [] \<Rightarrow> []
             | x # r \<Rightarrow> x @ concat (map (\<lambda>y. CHR 0x0A # y) r))]"
  using assms by (simp add: start_callback_def Let_def enable_buttons_effects join_newline)

lemma start_callback_failed_fields:
  assumes "\<not> result response"
  shows "app (start_callback response t) = (app t)\<lparr>shown_errors := shown_errors (app t) @
           [(''Start Session Error'', join newline (exceptions response))]\<rparr>"
    and "widgets (start_callback response t) = widgets (enable_buttons (design_frame t) True t)"
    and "design_frame (start_callback response t) = design_frame t"
    and "runtime_frame (start_callback response t) = runtime_frame t"
    and "raised (start_callback response t) = raised t"
  using assms by (simp_all add: start_callback_def Let_def show_error_def)

lemma app0_fields:
  "started_tasks app0 = []" "shown_errors app0 = []" "core_calls app0 = []"
  "menubar_is_runtime app0 = False" "canvas_mode app0 = GraphMode_SELECT"
  "canvas_stopped_session app0 = 0" "after_queue app0 = []"
  "bind_all_release app0 = None" "grab app0 = None" "canvas_node_draw app0 = None"
  by (simp_all add: app0_def)


text \<open>
  Claim C1, as stated, fails on the code. The claim: \<^verbatim>\<open>click_start\<close> called while the phase is
  \<open>Starting\<close>, \<open>Runtime\<close> or \<open>Stopping\<close>, and \<^verbatim>\<open>click_stop\<close> called while the phase is not
  \<open>Runtime\<close>, fail with \<^verbatim>\<open>InvalidTransition\<close> and change nothing. The toolbar has no phase
  variable, no such error and no guard: after one \<^verbatim>\<open>click_start\<close> the phase is \<open>Starting\<close>, and a
  second \<^verbatim>\<open>click_start\<close> completes and starts a second task; \<^verbatim>\<open>click_stop\<close> on the freshly built
  toolbar (phase \<open>Design\<close>) completes and starts a task.
\<close>
theorem click_start_in_starting_counterexample:
  "spec_phase (click_start (Toolbar_init app0)) = Starting
   \<and> length (started_tasks (app (click_start (Toolbar_init app0)))) = 1
   \<and> length (started_tasks (app (click_start (click_start (Toolbar_init app0))))) = 2
   \<and> spec_phase (Toolbar_init app0) = Design
   \<and> length (started_tasks (app (Toolbar_init app0))) = 0
   \<and> length (started_tasks (app (click_stop (Toolbar_init app0)))) = 1"
  by (simp add: spec_phase_def all_enabled_def click_start_fields click_stop_fields
      Toolbar_init_simps enable_buttons_apply app0_fields)

text \<open>
  Claim C1, amended. \<^verbatim>\<open>click_start\<close> and \<^verbatim>\<open>click_stop\<close> check no phase and have no failure
  branch: in every state, whatever the phase, \<^verbatim>\<open>click_start\<close> switches the menubar to runtime,
  sets the canvas mode to \<^verbatim>\<open>SELECT\<close>, disables the whole design group and starts one
  \<^verbatim>\<open>Start\<close> task, and \<^verbatim>\<open>click_stop\<close> switches the menubar back, closes the mobility players,
  disables the whole runtime group and starts one \<^verbatim>\<open>Stop\<close> task.
\<close>

theorem click_start_click_stop_unguarded:
  "started_tasks (app (click_start t)) = started_tasks (app t) @
      [\<lparr>task_title = ''Start'', task_func = Core_start_session, task_callback = Cb_start_callback\<rparr>]
   \<and> menubar_is_runtime (app (click_start t))
   \<and> canvas_mode (app (click_start t)) = GraphMode_SELECT
   \<and> all_disabled (design_frame (click_start t)) (widgets (click_start t))
   \<and> started_tasks (app (click_stop t)) = started_tasks (app t) @
      [\<lparr>task_title = ''Stop'', task_func = Core_stop_session, task_callback = Cb_stop_callback\<rparr>]
   \<and> \<not> menubar_is_runtime (app (click_stop t))
   \<and> core_calls (app (click_stop t)) = core_calls (app t) @ [Core_close_mobility_players]
   \<and> all_disabled (runtime_frame (click_stop t)) (widgets (click_stop t))"
  by (simp add: click_start_fields click_stop_fields all_disabled_iff enable_buttons_apply)

theorem click_start_click_stop_unguarded_witness:
  "spec_phase (click_start (Toolbar_init app0)) = Starting
   \<and> started_tasks (app (click_start (click_start (Toolbar_init app0)))) =
       [\<lparr>task_title = ''Start'', task_func = Core_start_session, task_callback = Cb_start_callback\<rparr>,
        \<lparr>task_title = ''Start'', task_func = Core_start_session, task_callback = Cb_start_callback\<rparr>]
   \<and> started_tasks (app (click_stop (click_start (Toolbar_init app0)))) =
       [\<lparr>task_title = ''Start'', task_func = Core_start_session, task_callback = Cb_start_callback\<rparr>,
        \<lparr>task_title = ''Stop'', task_func = Core_stop_session, task_callback = Cb_stop_callback\<rparr>]"
proof -
  have "spec_phase (click_start (Toolbar_init app0)) = Starting"
    by (simp add: spec_phase_def all_enabled_def click_start_fields Toolbar_init_simps
        enable_buttons_apply)
  moreover have "started_tasks (app (click_start (Toolbar_init app0))) =
       [\<lparr>task_title = ''Start'', task_func = Core_start_session, task_callback = Cb_start_callback\<rparr>]"
    by (simp add: click_start_fields Toolbar_init_simps app0_fields)
  ultimately show ?thesis
    using click_start_click_stop_unguarded [of "click_start (Toolbar_init app0)"] by simp
qed

text \<open>
  Claim C2, as stated, fails on the code in its second half ("at most one pending start task;
  a second submission while one is pending is rejected"): nothing in \<^verbatim>\<open>click_start\<close> looks at
  the tasks in flight. Two calls in a row, with no completion in between (no error shown, the
  design frame still raised), leave two start tasks started.
\<close>

theorem two_pending_start_tasks_counterexample:
  "map task_func (started_tasks (app (run [Call_click_start, Call_click_start] (Toolbar_init app0))))
     = [Core_start_session, Core_start_session]
   \<and> shown_errors (app (run [Call_click_start, Call_click_start] (Toolbar_init app0))) = []
   \<and> raised (run [Call_click_start, Call_click_start] (Toolbar_init app0)) = Design_frame"
  by (simp add: run_def click_start_fields Toolbar_init_simps app0_fields)

text \<open>
  Claim C2, amended. \<^verbatim>\<open>click_start\<close> disables the whole design group, the start button that
  triggers it included, before the start task is handed to the task runner: the effects of
  the call are, in this order, the menubar switch, the canvas mode, one
  \<^verbatim>\<open>configure(state=DISABLED)\<close> for each design button, and last the start of the task.
  \<^verbatim>\<open>click_stop\<close> does the same with the runtime group and the stop button. The only
  protection against a second submission is that disabled button: each call of either
  method starts exactly one more task, and the code rejects none.
\<close>

theorem click_disables_group_before_task:
  assumes "wf_toolbar t"
  shows "effects (click_start t) =
           effects t @ [Menubar_change_menubar_item_state True, Canvas_mode GraphMode_SELECT]
             @ map (\<lambda>b. Configure_state b DISABLED) (children (design_frame t))
             @ [Task_start \<lparr>task_title = ''Start'', task_func = Core_start_session,
                  task_callback = Cb_start_callback\<rparr>]
       \<and> play_button t \<in> set (children (design_frame t))
       \<and> all_disabled (design_frame (click_start t)) (widgets (click_start t))
       \<and> w_state (widgets (click_start t) (play_button (click_start t))) = DISABLED
       \<and> started_tasks (app (click_start t)) = started_tasks (app t) @
             [\<lparr>task_title = ''Start'', task_func = Core_start_session,
               task_callback = Cb_start_callback\<rparr>]
       \<and> effects (click_stop t) =
           effects t @ [Menubar_change_menubar_item_state False,
                        Core_call Core_close_mobility_players]
             @ map (\<lambda>b. Configure_state b DISABLED) (children (runtime_frame t))
             @ [Task_start \<lparr>task_title = ''Stop'', task_func = Core_stop_session,
                  task_callback = Cb_stop_callback\<rparr>]
       \<and> stop_button t \<in> set (children (runtime_frame t))
       \<and> all_disabled (runtime_frame (click_stop t)) (widgets (click_stop t))
       \<and> w_state (widgets (click_stop t) (stop_button (click_stop t))) = DISABLED
       \<and> started_tasks (app (click_stop t)) = started_tasks (app t) @
             [\<lparr>task_title = ''Stop'', task_func = Core_stop_session,
               task_callback = Cb_stop_callback\<rparr>]"
proof -
  from assms have play: "play_button t \<in> set (children (design_frame t))"
    and stop: "stop_button t \<in> set (children (runtime_frame t))"
    unfolding wf_toolbar_def by blast+
  have 1: "all_disabled (design_frame (click_start t)) (widgets (click_start t))"
    "all_disabled (runtime_frame (click_stop t)) (widgets (click_stop t))"
    by (simp_all add: all_disabled_iff click_start_fields click_stop_fields enable_buttons_apply)
  have 2: "w_state (widgets (click_start t) (play_button (click_start t))) = DISABLED"
    "w_state (widgets (click_stop t) (stop_button (click_stop t))) = DISABLED"
    using play stop
    by (simp_all add: click_start_fields click_stop_fields enable_buttons_apply)
  have 3: "started_tasks (app (click_start t)) = started_tasks (app t) @
             [\<lparr>task_title = ''Start'', task_func = Core_start_session,
               task_callback = Cb_start_callback\<rparr>]"
    "started_tasks (app (click_stop t)) = started_tasks (app t) @
             [\<lparr>task_title = ''Stop'', task_func = Core_stop_session,
               task_callback = Cb_stop_callback\<rparr>]"
    by (simp_all add: click_start_fields click_stop_fields)
  from play stop 1 2 3 click_start_effects [of t] click_stop_effects [of t]
  show ?thesis by blast
qed

theorem click_disables_group_before_task_witness:
  "wf_toolbar (Toolbar_init app0)
   \<and> effects (click_start (Toolbar_init app0)) =
       [Menubar_change_menubar_item_state True, Canvas_mode GraphMode_SELECT,
        Configure_state 0 DISABLED, Configure_state 1 DISABLED, Configure_state 2 DISABLED,
        Configure_state 3 DISABLED, Configure_state 4 DISABLED, Configure_state 5 DISABLED,
        Task_start \<lparr>task_title = ''Start'', task_func = Core_start_session,
          task_callback = Cb_start_callback\<rparr>]
   \<and> effects (click_stop (Toolbar_init app0)) =
       [Menubar_change_menubar_item_state False, Core_call Core_close_mobility_players,
        Configure_state 6 DISABLED, Configure_state 7 DISABLED, Configure_state 8 DISABLED,
        Configure_state 9 DISABLED,
        Task_start \<lparr>task_title = ''Stop'', task_func = Core_stop_session,
          task_callback = Cb_stop_callback\<rparr>]
   \<and> w_state (widgets (click_start (Toolbar_init app0)) 0) = DISABLED
   \<and> w_state (widgets (click_stop (Toolbar_init app0)) 6) = DISABLED
   \<and> length (started_tasks (app (click_start (Toolbar_init app0)))) = 1"
proof -
  have b: "play_button (click_start (Toolbar_init app0)) = 0"
    "stop_button (click_stop (Toolbar_init app0)) = 6"
    by (simp_all add: click_start_fields click_stop_fields Toolbar_init_buttons)
  have e: "effects (Toolbar_init app0) = []"
    by (simp add: init_defs)
  from click_disables_group_before_task [OF wf_toolbar_init, of app0] wf_toolbar_init [of app0]
  show ?thesis
    by (simp add: b e Toolbar_init_simps app0_fields)
qed

subsection \<open>The widget tree is fixed\<close>

lemma widget_tree_fields:
  assumes "widget_tree t' = widget_tree t"
  shows "design_frame t' = design_frame t" "runtime_frame t' = runtime_frame t"
    "num_widgets t' = num_widgets t" "play_button t' = play_button t"
    "select_button t' = select_button t" "link_button t' = link_button t"
    "node_button t' = node_button t" "network_button t' = network_button t"
    "annotation_button t' = annotation_button t"
    "runtime_select_button t' = runtime_select_button t" "stop_button t' = stop_button t"
    "runtime_marker_button t' = runtime_marker_button t"
    "run_command_button t' = run_command_button t"
  using assms by (simp_all add: widget_tree_def)

lemma wf_toolbar_widget_tree:
  "widget_tree t' = widget_tree t \<Longrightarrow> wf_toolbar t' = wf_toolbar t"
  by (simp add: wf_toolbar_def widget_tree_def)

lemma widget_tree_session [simp]:
  "widget_tree (click_selection t) = widget_tree t"
  "widget_tree (click_runtime_selection t) = widget_tree t"
  "widget_tree (click_link t) = widget_tree t"
  "widget_tree (click_start t) = widget_tree t"
  "widget_tree (click_stop t) = widget_tree t"
  "widget_tree (set_runtime t) = widget_tree t"
  "widget_tree (set_design t) = widget_tree t"
  "widget_tree (start_callback response t) = widget_tree t"
  "widget_tree (stop_callback response' t) = widget_tree t"
  by (simp_all add: widget_tree_def click_selection_def click_runtime_selection_def click_link_def
      click_start_def click_stop_def set_runtime_def set_design_def start_callback_def
      stop_callback_def Let_def)

lemma widget_tree_init:
  "widget_tree (Toolbar_init a) =
     (\<lparr>children = [0, 1, 2, 3, 4, 5], radio_buttons = [1, 2, 3, 4, 5]\<rparr>,
      \<lparr>children = [6, 7, 8, 9], radio_buttons = [7, 8]\<rparr>, 10, [0, 1, 2, 3, 4, 5, 7, 6, 8, 9])"
  by (simp add: widget_tree_def Toolbar_init_frames Toolbar_init_buttons)

lemma click_runtime_selection_fields:
  "app (click_runtime_selection t) = (app t)\<lparr>canvas_mode := GraphMode_SELECT\<rparr>"
  "widgets (click_runtime_selection t) = select_radio (runtime_frame t) (runtime_select_button t) (widgets t)"
  "design_frame (click_runtime_selection t) = design_frame t"
  "runtime_frame (click_runtime_selection t) = runtime_frame t"
  "raised (click_runtime_selection t) = raised t"
  "runtime_select_button (click_runtime_selection t) = runtime_select_button t"
  by (simp_all add: click_runtime_selection_def Let_def)

lemma click_selection_fields:
  "app (click_selection t) = (app t)\<lparr>canvas_mode := GraphMode_SELECT\<rparr>"
  "widgets (click_selection t) = select_radio (design_frame t) (select_button t) (widgets t)"
  "design_frame (click_selection t) = design_frame t"
  "runtime_frame (click_selection t) = runtime_frame t"
  "raised (click_selection t) = raised t"
  "select_button (click_selection t) = select_button t"
  by (simp_all add: click_selection_def Let_def)

lemma set_runtime_fields:
  "app (set_runtime t) = (app t)\<lparr>canvas_mode := GraphMode_SELECT\<rparr>"
  "widgets (set_runtime t) = select_radio (runtime_frame t) (runtime_select_button t)
      (widgets (enable_buttons (runtime_frame t) True t))"
  "design_frame (set_runtime t) = design_frame t"
  "runtime_frame (set_runtime t) = runtime_frame t"
  "raised (set_runtime t) = Runtime_frame"
  "runtime_select_button (set_runtime t) = runtime_select_button t"
  by (simp_all add: set_runtime_def Let_def click_runtime_selection_fields)

lemma set_design_fields:
  "app (set_design t) = (app t)\<lparr>canvas_mode := GraphMode_SELECT\<rparr>"
  "widgets (set_design t) = select_radio (design_frame t) (select_button t)
      (widgets (enable_buttons (design_frame t) True t))"
  "design_frame (set_design t) = design_frame t"
  "runtime_frame (set_design t) = runtime_frame t"
  "raised (set_design t) = Design_frame"
  "select_button (set_design t) = select_button t"
  by (simp_all add: set_design_def Let_def click_selection_fields)

lemma start_callback_ok_fields:
  assumes "result response"
  shows "app (start_callback response t) = (app t)\<lparr>canvas_mode := GraphMode_SELECT,
           core_calls := core_calls (app t) @ [Core_set_metadata, Core_show_mobility_players]\<rparr>"
    and "widgets (start_callback response t) = select_radio (runtime_frame t) (runtime_select_button t)
           (widgets (enable_buttons (runtime_frame t) True t))"
    and "design_frame (start_callback response t) = design_frame t"
    and "runtime_frame (start_callback response t) = runtime_frame t"
    and "raised (start_callback response t) = Runtime_frame"
    and "runtime_select_button (start_callback response t) = runtime_select_button t"
  using assms by (simp_all add: start_callback_def Let_def set_runtime_fields core_call_def)

lemma stop_callback_fields:
  "app (stop_callback response t) = (app t)\<lparr>canvas_mode := GraphMode_SELECT,
      canvas_stopped_session := Suc (canvas_stopped_session (app t))\<rparr>"
  "widgets (stop_callback response t) = select_radio (design_frame t) (select_button t)
      (widgets (enable_buttons (design_frame t) True t))"
  "design_frame (stop_callback response t) = design_frame t"
  "runtime_frame (stop_callback response t) = runtime_frame t"
  "raised (stop_callback response t) = Design_frame"
  "select_button (stop_callback response t) = select_button t"
  by (simp_all add: stop_callback_def Let_def set_design_fields stopped_session_def)

lemma filter_eq_single:
  "distinct xs \<Longrightarrow> x \<in> set xs \<Longrightarrow> filter (\<lambda>b. b = x) xs = [x]"
  by (induction xs) (auto simp: filter_empty_conv)

lemma pressed_radios_select_radio:
  assumes "distinct (radio_buttons bar)" and "selected \<in> set (radio_buttons bar)"
  shows "pressed_radios bar (select_radio bar selected ws) = [selected]"
proof -
  have "filter (\<lambda>b. w_pressed (select_radio bar selected ws b)) (radio_buttons bar)
      = filter (\<lambda>b. b = selected) (radio_buttons bar)"
    by (rule filter_cong) (simp_all add: select_radio_apply)
  with assms show ?thesis
    by (simp add: pressed_radios_def filter_eq_single)
qed

subsection \<open>Completion of a start\<close>

text \<open>
  Claim C3. A failed start completion (\<^verbatim>\<open>start_callback\<close> with \<^verbatim>\<open>response.result\<close> false),
  arriving while the design frame is the raised one (as it is throughout \<open>Starting\<close>), brings
  the phase back to \<open>Design\<close> with every design button enabled, and shows one error, titled
  \<^verbatim>\<open>Start Session Error\<close>, whose message is the exceptions joined by newlines: the first
  exception, then each further one behind a newline character. For the exception list
  \<^verbatim>\<open>["boom"]\<close> the message is exactly \<^verbatim>\<open>boom\<close>.
\<close>

theorem start_callback_failure_restores_design:
  assumes "raised t = Design_frame" and "\<not> result response"
  shows "spec_phase (start_callback response t) = Design
       \<and> all_enabled (design_frame (start_callback response t)) (widgets (start_callback response t))
       \<and> shown_errors (app (start_callback response t)) =
           shown_errors (app t) @
             [(''Start Session Error'',
               case exceptions response of
                 [] \<Rightarrow> []
               | x # xs \<Rightarrow> x @ concat (map (\<lambda>y. CHR 0x0A # y) xs))]"
  using assms
  by (simp add: start_callback_failed_fields spec_phase_def all_enabled_iff enable_buttons_apply
      join_newline)

theorem start_callback_failure_restores_design_witness:
  "raised (click_start (Toolbar_init app0)) = Design_frame
   \<and> spec_phase (click_start (Toolbar_init app0)) = Starting
   \<and> spec_phase (start_callback (start_failed [''boom'']) (click_start (Toolbar_init app0))) = Design
   \<and> shown_errors (app (start_callback (start_failed [''boom'']) (click_start (Toolbar_init app0))))
       = [(''Start Session Error'', ''boom'')]
   \<and> shown_errors (app (start_callback (start_failed [''port in use'', ''boom'', ''x''])
         (click_start (Toolbar_init app0))))
       = [(''Start Session Error'', ''port in use'' @ CHR 0x0A # ''boom'' @ CHR 0x0A # ''x'')]"
proof -
  have r: "raised (click_start (Toolbar_init app0)) = Design_frame"
    by (simp add: click_start_fields Toolbar_init_simps)
  have f: "\<not> result (start_failed [''boom''])"
    "\<not> result (start_failed [''port in use'', ''boom'', ''x''])"
    by (simp_all add: start_failed_def)
  have s: "spec_phase (click_start (Toolbar_init app0)) = Starting"
    by (simp add: spec_phase_def all_enabled_def click_start_fields Toolbar_init_simps
        enable_buttons_apply)
  have e: "shown_errors (app (click_start (Toolbar_init app0))) = []"
    "exceptions (start_failed [''boom'']) = [''boom'']"
    "exceptions (start_failed [''port in use'', ''boom'', ''x'']) = [''port in use'', ''boom'', ''x'']"
    by (simp_all add: click_start_fields Toolbar_init_simps app0_fields start_failed_def)
  from start_callback_failure_restores_design [OF r f(1)]
    start_callback_failure_restores_design [OF r f(2)] r s e
  show ?thesis by simp
qed

text \<open>
  Claim C4. A successful start completion (\<^verbatim>\<open>start_callback\<close> with \<^verbatim>\<open>response.result\<close> true)
  that follows a start request, so that it finds the design group disabled, leaves the design
  group fully disabled and the runtime group fully enabled, raises the runtime frame, sets
  the canvas mode to \<^verbatim>\<open>SELECT\<close>, and leaves exactly one runtime radio button pressed: the
  runtime selection button.
\<close>

theorem start_callback_success_enters_runtime:
  assumes "wf_toolbar t" and "all_disabled (design_frame t) (widgets t)" and "result response"
  shows "all_disabled (design_frame (start_callback response t)) (widgets (start_callback response t))
       \<and> all_enabled (runtime_frame (start_callback response t)) (widgets (start_callback response t))
       \<and> raised (start_callback response t) = Runtime_frame
       \<and> spec_phase (start_callback response t) = Runtime
       \<and> canvas_mode (app (start_callback response t)) = GraphMode_SELECT
       \<and> pressed_radios (runtime_frame (start_callback response t)) (widgets (start_callback response t))
           = [runtime_select_button (start_callback response t)]"
proof -
  from assms(1) have disj: "set (children (design_frame t)) \<inter> set (children (runtime_frame t)) = {}"
    and dist: "distinct (radio_buttons (runtime_frame t))"
    and sel: "runtime_select_button t \<in> set (radio_buttons (runtime_frame t))"
    by (simp_all add: wf_toolbar_def)
  let ?t = "start_callback response t"
  have d: "all_disabled (design_frame ?t) (widgets ?t)"
    using assms(2,3) disj
    by (auto simp: start_callback_ok_fields all_disabled_iff select_radio_apply enable_buttons_apply)
  have e: "all_enabled (runtime_frame ?t) (widgets ?t)"
    using assms(3)
    by (simp add: start_callback_ok_fields all_enabled_iff select_radio_apply enable_buttons_apply)
  have r: "raised ?t = Runtime_frame" "canvas_mode (app ?t) = GraphMode_SELECT"
    using assms(3) by (simp_all add: start_callback_ok_fields)
  have p: "pressed_radios (runtime_frame ?t) (widgets ?t) = [runtime_select_button ?t]"
    using assms(3) dist sel
    by (simp add: start_callback_ok_fields pressed_radios_select_radio)
  from e r have "spec_phase ?t = Runtime"
    by (simp add: spec_phase_def)
  with d e r p show ?thesis by simp
qed

theorem start_callback_success_enters_runtime_witness:
  "wf_toolbar (click_start (Toolbar_init app0))
   \<and> all_disabled (design_frame (click_start (Toolbar_init app0))) (widgets (click_start (Toolbar_init app0)))
   \<and> result start_ok
   \<and> spec_phase (start_callback start_ok (click_start (Toolbar_init app0))) = Runtime
   \<and> pressed_radios (runtime_frame (Toolbar_init app0))
        (widgets (start_callback start_ok (click_start (Toolbar_init app0)))) = [7]"
proof -
  have w: "wf_toolbar (click_start (Toolbar_init app0))"
    by (simp add: wf_toolbar_widget_tree wf_toolbar_init)
  have d: "all_disabled (design_frame (click_start (Toolbar_init app0))) (widgets (click_start (Toolbar_init app0)))"
    by (simp add: all_disabled_def click_start_fields Toolbar_init_simps enable_buttons_apply)
  have r: "result start_ok"
    by (simp add: start_ok_def)
  have "widget_tree (start_callback start_ok (click_start (Toolbar_init app0))) = widget_tree (Toolbar_init app0)"
    by simp
  then have f: "runtime_frame (start_callback start_ok (click_start (Toolbar_init app0))) = runtime_frame (Toolbar_init app0)"
    "runtime_select_button (start_callback start_ok (click_start (Toolbar_init app0))) = 7"
    by (simp_all add: widget_tree_def Toolbar_init_buttons)
  from start_callback_success_enters_runtime [OF w d r] w d r f show ?thesis
    by simp
qed

subsection \<open>Completion of a stop\<close>

text \<open>
  Claim C5. Every stop completion (\<^verbatim>\<open>stop_callback\<close>), whatever the response, puts the phase
  to \<open>Design\<close>: the design group is enabled, the design frame raised, the design selection
  button pressed and every other design radio button unpressed, the canvas mode
  \<^verbatim>\<open>SELECT\<close>; the canvas's \<^verbatim>\<open>stopped_session()\<close> is called exactly once; no error is shown, and
  the response is not looked at.
\<close>

theorem stop_callback_always_design:
  "spec_phase (stop_callback response t) = Design
   \<and> all_enabled (design_frame (stop_callback response t)) (widgets (stop_callback response t))
   \<and> raised (stop_callback response t) = Design_frame
   \<and> canvas_mode (app (stop_callback response t)) = GraphMode_SELECT
   \<and> w_pressed (widgets (stop_callback response t) (select_button (stop_callback response t)))
   \<and> (\<forall>b \<in> set (radio_buttons (design_frame (stop_callback response t))).
         b \<noteq> select_button (stop_callback response t)
           \<longrightarrow> \<not> w_pressed (widgets (stop_callback response t) b))
   \<and> canvas_stopped_session (app (stop_callback response t)) = Suc (canvas_stopped_session (app t))
   \<and> shown_errors (app (stop_callback response t)) = shown_errors (app t)
   \<and> stop_callback response t = stop_callback response' t"
proof -
  let ?t = "stop_callback response t"
  have e: "all_enabled (design_frame ?t) (widgets ?t)"
    by (simp add: stop_callback_fields all_enabled_iff select_radio_apply enable_buttons_apply)
  have r: "raised ?t = Design_frame" "canvas_mode (app ?t) = GraphMode_SELECT"
    "canvas_stopped_session (app ?t) = Suc (canvas_stopped_session (app t))"
    "shown_errors (app ?t) = shown_errors (app t)"
    by (simp_all add: stop_callback_fields)
  have p: "w_pressed (widgets ?t (select_button ?t))"
    "\<forall>b \<in> set (radio_buttons (design_frame ?t)). b \<noteq> select_button ?t \<longrightarrow> \<not> w_pressed (widgets ?t b)"
    by (simp_all add: stop_callback_fields select_radio_apply)
  have i: "stop_callback response t = stop_callback response' t"
    by (simp add: stop_callback_def)
  from e r have "spec_phase ?t = Design" by (simp add: spec_phase_def)
  with e r p i show ?thesis by blast
qed

theorem stop_callback_always_design_witness:
  "spec_phase (click_stop (start_callback start_ok (click_start (Toolbar_init app0)))) = Stopping
   \<and> spec_phase (stop_callback \<lparr>stop_result = False\<rparr>
        (click_stop (start_callback start_ok (click_start (Toolbar_init app0))))) = Design
   \<and> canvas_stopped_session (app (stop_callback \<lparr>stop_result = False\<rparr>
        (click_stop (start_callback start_ok (click_start (Toolbar_init app0)))))) = 1
   \<and> pressed_radios (design_frame (Toolbar_init app0)) (widgets (stop_callback \<lparr>stop_result = False\<rparr>
        (click_stop (start_callback start_ok (click_start (Toolbar_init app0)))))) = [1]"
proof -
  let ?s = "click_stop (start_callback start_ok (click_start (Toolbar_init app0)))"
  have r: "result start_ok" by (simp add: start_ok_def)
  have 1: "spec_phase ?s = Stopping"
    using r by (simp add: spec_phase_def all_enabled_def click_stop_fields click_start_fields
        start_callback_ok_fields Toolbar_init_simps enable_buttons_apply)
  have 2: "canvas_stopped_session (app ?s) = 0"
    using r by (simp add: click_stop_fields click_start_fields start_callback_ok_fields
        Toolbar_init_simps app0_fields)
  have "widget_tree ?s = widget_tree (Toolbar_init app0)"
    by simp
  then have 3: "design_frame ?s = design_frame (Toolbar_init app0)" "select_button ?s = 1"
    by (simp_all add: widget_tree_def Toolbar_init_buttons)
  have 4: "pressed_radios (design_frame (Toolbar_init app0)) (widgets (stop_callback \<lparr>stop_result = False\<rparr> ?s)) = [1]"
    by (simp add: pressed_radios_def stop_callback_fields 3 select_radio_apply Toolbar_init_frames)
  from stop_callback_always_design [of "\<lparr>stop_result = False\<rparr>" ?s] 1 2 4 show ?thesis
    by simp
qed

subsection \<open>The runtime group on a failed start\<close>

text \<open>
  Claim C6, as stated, fails on the code in its second half ("afterwards every runtime button
  is disabled"). \<^verbatim>\<open>draw_runtime_frame\<close> creates the runtime buttons enabled, and only
  \<^verbatim>\<open>click_stop\<close> ever disables them; on the first start after construction, a failing
  completion leaves all four runtime buttons enabled.
\<close>

theorem runtime_enabled_after_failed_start_counterexample:
  "\<not> result (start_failed [''boom''])
   \<and> children (runtime_frame (run [Call_click_start, Call_start_callback (start_failed [''boom''])]
         (Toolbar_init app0))) = [6, 7, 8, 9]
   \<and> map (\<lambda>b. w_state (widgets (run [Call_click_start, Call_start_callback (start_failed [''boom''])]
         (Toolbar_init app0)) b)) [6, 7, 8, 9] = [NORMAL, NORMAL, NORMAL, NORMAL]
   \<and> \<not> all_disabled
        (runtime_frame (run [Call_click_start, Call_start_callback (start_failed [''boom''])]
           (Toolbar_init app0)))
        (widgets (run [Call_click_start, Call_start_callback (start_failed [''boom''])]
           (Toolbar_init app0)))"
proof -
  have f: "\<not> result (start_failed [''boom''])" by (simp add: start_failed_def)
  show ?thesis
    using f by (simp add: run_def all_disabled_def start_callback_failed_fields click_start_fields
        Toolbar_init_simps enable_buttons_apply)
qed

text \<open>
  Claim C6, amended. A failed start completion leaves the runtime group untouched: the runtime
  frame and every runtime button are exactly as before, so the group is disabled afterwards
  if and only if it was disabled before (it is after a stop, it is not on the first start after
  construction), and the pressed runtime radio buttons are the same.
\<close>

theorem start_callback_failure_runtime_untouched:
  assumes "wf_toolbar t" and "\<not> result response"
  shows "runtime_frame (start_callback response t) = runtime_frame t
       \<and> (\<forall>b \<in> set (children (runtime_frame t)). widgets (start_callback response t) b = widgets t b)
       \<and> all_disabled (runtime_frame (start_callback response t)) (widgets (start_callback response t))
           = all_disabled (runtime_frame t) (widgets t)
       \<and> pressed_radios (runtime_frame (start_callback response t)) (widgets (start_callback response t))
           = pressed_radios (runtime_frame t) (widgets t)"
proof -
  from assms(1) have disj: "set (children (design_frame t)) \<inter> set (children (runtime_frame t)) = {}"
    and sub: "set (radio_buttons (runtime_frame t)) \<subseteq> set (children (runtime_frame t))"
    by (simp_all add: wf_toolbar_def)
  let ?t = "start_callback response t"
  have same: "\<forall>b \<in> set (children (runtime_frame t)). widgets ?t b = widgets t b"
    using assms(2) disj by (auto simp: start_callback_failed_fields enable_buttons_apply)
  have fr: "runtime_frame ?t = runtime_frame t"
    using assms(2) by (simp add: start_callback_failed_fields)
  from same fr have dis: "all_disabled (runtime_frame ?t) (widgets ?t) = all_disabled (runtime_frame t) (widgets t)"
    by (simp add: all_disabled_iff)
  have "filter (\<lambda>b. w_pressed (widgets ?t b)) (radio_buttons (runtime_frame t))
      = filter (\<lambda>b. w_pressed (widgets t b)) (radio_buttons (runtime_frame t))"
    using same sub by (intro filter_cong) auto
  with fr have pr: "pressed_radios (runtime_frame ?t) (widgets ?t) = pressed_radios (runtime_frame t) (widgets t)"
    by (simp add: pressed_radios_def)
  from same fr dis pr show ?thesis by blast
qed

theorem start_callback_failure_runtime_untouched_witness:
  "wf_toolbar (click_start (stop_callback \<lparr>stop_result = True\<rparr> (click_stop (Toolbar_init app0))))
   \<and> \<not> result (start_failed [''boom''])
   \<and> all_disabled (runtime_frame (Toolbar_init app0))
        (widgets (click_start (stop_callback \<lparr>stop_result = True\<rparr> (click_stop (Toolbar_init app0)))))
   \<and> all_disabled (runtime_frame (Toolbar_init app0))
        (widgets (start_callback (start_failed [''boom''])
           (click_start (stop_callback \<lparr>stop_result = True\<rparr> (click_stop (Toolbar_init app0))))))"
proof -
  let ?s = "click_start (stop_callback \<lparr>stop_result = True\<rparr> (click_stop (Toolbar_init app0)))"
  have w: "wf_toolbar ?s"
    by (simp add: wf_toolbar_widget_tree wf_toolbar_init)
  have f: "\<not> result (start_failed [''boom''])" by (simp add: start_failed_def)
  have fr: "runtime_frame ?s = runtime_frame (Toolbar_init app0)"
    by (simp add: click_start_fields stop_callback_fields click_stop_fields)
  have d: "all_disabled (runtime_frame (Toolbar_init app0)) (widgets ?s)"
    by (simp add: all_disabled_def click_start_fields stop_callback_fields click_stop_fields
        Toolbar_init_simps enable_buttons_apply select_radio_apply)
  note T = start_callback_failure_runtime_untouched [OF w f]
  from T have a: "runtime_frame (start_callback (start_failed [''boom'']) ?s) = runtime_frame ?s"
    by (rule conjunct1)
  from T have b: "all_disabled (runtime_frame (start_callback (start_failed [''boom'']) ?s))
        (widgets (start_callback (start_failed [''boom'']) ?s))
      = all_disabled (runtime_frame ?s) (widgets ?s)"
    by blast
  from b have "all_disabled (runtime_frame (Toolbar_init app0))
        (widgets (start_callback (start_failed [''boom'']) ?s))"
    unfolding a fr using d by simp
  with w f d show ?thesis by simp
qed

subsection \<open>What a failed start does not undo\<close>

text \<open>
  Claim C10. \<^verbatim>\<open>click_start\<close> switches the menubar to its runtime state and sets the canvas
  mode to \<^verbatim>\<open>SELECT\<close> before the start task is started: these are the first two effects of the
  call and the start of the task is the last. On a failed start, \<^verbatim>\<open>start_callback\<close> only
  re-enables the design group and shows the error: afterwards every design button is
  enabled, its effects are one \<^verbatim>\<open>configure(state=NORMAL)\<close> per design button and the error,
  no widget outside the design group changes, no button's pressed state or image changes,
  the application changes in its shown errors only, and nothing else of the toolbar changes.
  So neither the menubar's state nor the canvas mode is reverted: after a start request
  and its failed completion the menubar is still in its runtime state and the canvas mode is
  still \<^verbatim>\<open>SELECT\<close>.
\<close>

theorem failed_start_keeps_menubar_runtime:
  "effects (click_start t) =
      effects t @ [Menubar_change_menubar_item_state True, Canvas_mode GraphMode_SELECT]
        @ map (\<lambda>b. Configure_state b DISABLED) (children (design_frame t))
        @ [Task_start \<lparr>task_title = ''Start'', task_func = Core_start_session,
             task_callback = Cb_start_callback\<rparr>]
   \<and> menubar_is_runtime (app (click_start t))
   \<and> canvas_mode (app (click_start t)) = GraphMode_SELECT
   \<and> (\<not> result response \<longrightarrow>
         all_enabled (design_frame (start_callback response t)) (widgets (start_callback response t))
         \<and> effects (start_callback response t) =
             effects t @ map (\<lambda>b. Configure_state b NORMAL) (children (design_frame t))
               @ [Show_error ''Start Session Error''
                    (case exceptions response of [] \<Rightarrow> []
                     | x # r \<Rightarrow> x @ concat (map (\<lambda>y. CHR 0x0A # y) r))]
         \<and> (\<forall>b. b \<notin> set (children (design_frame t))
               \<longrightarrow> widgets (start_callback response t) b = widgets t b)
         \<and> (\<forall>b. w_pressed (widgets (start_callback response t) b) = w_pressed (widgets t b)
               \<and> w_image (widgets (start_callback response t) b) = w_image (widgets t b))
         \<and> app (start_callback response t) =
             (app t)\<lparr>shown_errors := shown_errors (app t) @
               [(''Start Session Error'',
                 case exceptions response of [] \<Rightarrow> []
                 | x # r \<Rightarrow> x @ concat (map (\<lambda>y. CHR 0x0A # y) r))]\<rparr>
         \<and> start_callback response t =
             t\<lparr>widgets := widgets (start_callback response t),
               app := app (start_callback response t),
               effects := effects (start_callback response t)\<rparr>
         \<and> menubar_is_runtime (app (start_callback response t)) = menubar_is_runtime (app t)
         \<and> canvas_mode (app (start_callback response t)) = canvas_mode (app t)
         \<and> menubar_is_runtime (app (start_callback response (click_start t)))
         \<and> canvas_mode (app (start_callback response (click_start t))) = GraphMode_SELECT)"
proof -
  have A: "menubar_is_runtime (app (click_start t))"
    "canvas_mode (app (click_start t)) = GraphMode_SELECT"
    by (simp_all add: click_start_fields)
  have B: "all_enabled (design_frame (start_callback response t)) (widgets (start_callback response t))"
    "\<forall>b. b \<notin> set (children (design_frame t))
               \<longrightarrow> widgets (start_callback response t) b = widgets t b"
    "\<forall>b. w_pressed (widgets (start_callback response t) b) = w_pressed (widgets t b)
               \<and> w_image (widgets (start_callback response t) b) = w_image (widgets t b)"
    if "\<not> result response"
    using that
    by (simp_all add: start_callback_failed_fields all_enabled_iff enable_buttons_apply)
  have C: "app (start_callback response t) =
             (app t)\<lparr>shown_errors := shown_errors (app t) @
               [(''Start Session Error'',
                 case exceptions response of [] \<Rightarrow> []
                 | x # r \<Rightarrow> x @ concat (map (\<lambda>y. CHR 0x0A # y) r))]\<rparr>"
    "menubar_is_runtime (app (start_callback response t)) = menubar_is_runtime (app t)"
    "canvas_mode (app (start_callback response t)) = canvas_mode (app t)"
    "menubar_is_runtime (app (start_callback response (click_start t)))"
    "canvas_mode (app (start_callback response (click_start t))) = GraphMode_SELECT"
    if "\<not> result response"
    using that
    by (simp_all add: start_callback_failed_fields click_start_fields join_newline)
  have D: "start_callback response t =
             t\<lparr>widgets := widgets (start_callback response t),
               app := app (start_callback response t),
               effects := effects (start_callback response t)\<rparr>"
    if "\<not> result response"
    using that
    by (simp add: start_callback_def Let_def enable_buttons_eq perform_def)
  from A B C D click_start_effects [of t] start_callback_failed_effects [of response t]
  show ?thesis by blast
qed

theorem failed_start_keeps_menubar_runtime_witness:
  "\<not> menubar_is_runtime (app (Toolbar_init app0))
   \<and> \<not> result (start_failed [''boom''])
   \<and> menubar_is_runtime (app (start_callback (start_failed [''boom'']) (click_start (Toolbar_init app0))))
   \<and> spec_phase (start_callback (start_failed [''boom'']) (click_start (Toolbar_init app0))) = Design
   \<and> effects (start_callback (start_failed [''boom'']) (click_start (Toolbar_init app0))) =
       [Menubar_change_menubar_item_state True, Canvas_mode GraphMode_SELECT,
        Configure_state 0 DISABLED, Configure_state 1 DISABLED, Configure_state 2 DISABLED,
        Configure_state 3 DISABLED, Configure_state 4 DISABLED, Configure_state 5 DISABLED,
        Task_start \<lparr>task_title = ''Start'', task_func = Core_start_session,
          task_callback = Cb_start_callback\<rparr>,
        Configure_state 0 NORMAL, Configure_state 1 NORMAL, Configure_state 2 NORMAL,
        Configure_state 3 NORMAL, Configure_state 4 NORMAL, Configure_state 5 NORMAL,
        Show_error ''Start Session Error'' ''boom'']"
proof -
  have f: "\<not> result (start_failed [''boom''])" by (simp add: start_failed_def)
  have x: "exceptions (start_failed [''boom'']) = [''boom'']" by (simp add: start_failed_def)
  have p: "spec_phase (start_callback (start_failed [''boom'']) (click_start (Toolbar_init app0))) = Design"
    using f by (simp add: spec_phase_def all_enabled_def start_callback_failed_fields
        click_start_fields Toolbar_init_simps enable_buttons_apply)
  have e: "effects (click_start (Toolbar_init app0)) =
       [Menubar_change_menubar_item_state True, Canvas_mode GraphMode_SELECT,
        Configure_state 0 DISABLED, Configure_state 1 DISABLED, Configure_state 2 DISABLED,
        Configure_state 3 DISABLED, Configure_state 4 DISABLED, Configure_state 5 DISABLED,
        Task_start \<lparr>task_title = ''Start'', task_func = Core_start_session,
          task_callback = Cb_start_callback\<rparr>]"
    using failed_start_keeps_menubar_runtime [of "Toolbar_init app0" "start_failed [''boom'']"]
    by (simp add: Toolbar_init_simps init_defs)
  have d: "design_frame (click_start (Toolbar_init app0)) =
       \<lparr>children = [0, 1, 2, 3, 4, 5], radio_buttons = [1, 2, 3, 4, 5]\<rparr>"
    by (simp add: click_start_fields Toolbar_init_frames)
  note T = failed_start_keeps_menubar_runtime [of "click_start (Toolbar_init app0)"
      "start_failed [''boom'']"]
  from T f have "effects (start_callback (start_failed [''boom'']) (click_start (Toolbar_init app0))) =
      effects (click_start (Toolbar_init app0))
        @ map (\<lambda>b. Configure_state b NORMAL) (children (design_frame (click_start (Toolbar_init app0))))
        @ [Show_error ''Start Session Error''
             (case exceptions (start_failed [''boom'']) of [] \<Rightarrow> []
              | x # r \<Rightarrow> x @ concat (map (\<lambda>y. CHR 0x0A # y) r))]"
    by blast
  then have l: "effects (start_callback (start_failed [''boom'']) (click_start (Toolbar_init app0))) =
       [Menubar_change_menubar_item_state True, Canvas_mode GraphMode_SELECT,
        Configure_state 0 DISABLED, Configure_state 1 DISABLED, Configure_state 2 DISABLED,
        Configure_state 3 DISABLED, Configure_state 4 DISABLED, Configure_state 5 DISABLED,
        Task_start \<lparr>task_title = ''Start'', task_func = Core_start_session,
          task_callback = Cb_start_callback\<rparr>,
        Configure_state 0 NORMAL, Configure_state 1 NORMAL, Configure_state 2 NORMAL,
        Configure_state 3 NORMAL, Configure_state 4 NORMAL, Configure_state 5 NORMAL,
        Show_error ''Start Session Error'' ''boom'']"
    by (simp add: e d x)
  from failed_start_keeps_menubar_runtime [of "Toolbar_init app0" "start_failed [''boom'']"] f
  have m: "menubar_is_runtime (app (start_callback (start_failed [''boom''])
      (click_start (Toolbar_init app0))))"
    by blast
  have n: "\<not> menubar_is_runtime (app (Toolbar_init app0))"
    by (simp add: Toolbar_init_simps app0_fields)
  from n f m p l show ?thesis by blast
qed

subsection \<open>Opening a picker\<close>

lemma update_picker_id:
  "update_picker p (\<lambda>pf. pf) t = t"
  by (simp add: update_picker_def)

lemma update_picker_append_Nil:
  "update_picker p (\<lambda>pf. pf\<lparr>pf_buttons := pf_buttons pf @ []\<rparr>) t = t"
  by (simp add: update_picker_id)

lemma update_picker_append_append:
  "update_picker p (\<lambda>pf. pf\<lparr>pf_buttons := pf_buttons pf @ bs2\<rparr>)
     (update_picker p (\<lambda>pf. pf\<lparr>pf_buttons := pf_buttons pf @ bs1\<rparr>) t)
   = update_picker p (\<lambda>pf. pf\<lparr>pf_buttons := pf_buttons pf @ (bs1 @ bs2)\<rparr>) t"
  by (cases "p < length (pickers t)") (simp_all add: update_picker_def not_less list_update_beyond)

lemma fold_adds_buttons:
  assumes "\<And>x s. x \<in> set xs \<Longrightarrow>
             \<exists>bs. g x s = update_picker p (\<lambda>pf. pf\<lparr>pf_buttons := pf_buttons pf @ bs\<rparr>) s"
  shows "\<exists>bs. fold g xs t = update_picker p (\<lambda>pf. pf\<lparr>pf_buttons := pf_buttons pf @ bs\<rparr>) t"
  using assms
proof (induction xs arbitrary: t)
  case Nil
  have "fold g [] t = update_picker p (\<lambda>pf. pf\<lparr>pf_buttons := pf_buttons pf @ []\<rparr>) t"
    by (simp add: update_picker_id)
  then show ?case by blast
next
  case (Cons x xs)
  from Cons.prems [of x t] obtain bs1
    where 1: "g x t = update_picker p (\<lambda>pf. pf\<lparr>pf_buttons := pf_buttons pf @ bs1\<rparr>) t"
    by auto
  from Cons.IH [of "g x t"] Cons.prems obtain bs2
    where 2: "fold g xs (g x t) = update_picker p (\<lambda>pf. pf\<lparr>pf_buttons := pf_buttons pf @ bs2\<rparr>) (g x t)"
    by auto
  have "fold g (x # xs) t = fold g xs (g x t)"
    by simp
  also have "\<dots> = update_picker p (\<lambda>pf. pf\<lparr>pf_buttons := pf_buttons pf @ bs2\<rparr>) (g x t)"
    by (rule 2)
  also have "\<dots> = update_picker p (\<lambda>pf. pf\<lparr>pf_buttons := pf_buttons pf @ (bs1 @ bs2)\<rparr>) t"
    by (simp only: 1 update_picker_append_append)
  finally have "fold g (x # xs) t
      = update_picker p (\<lambda>pf. pf\<lparr>pf_buttons := pf_buttons pf @ (bs1 @ bs2)\<rparr>) t" .
  then show ?case by blast
qed

lemma create_button_adds:
  "\<exists>bs. PickerFrame_create_button p lbl image_enum func s
        = update_picker p (\<lambda>pf. pf\<lparr>pf_buttons := pf_buttons pf @ bs\<rparr>) s"
  "\<exists>bs. PickerFrame_create_custom_button p lbl image_file func s
        = update_picker p (\<lambda>pf. pf\<lparr>pf_buttons := pf_buttons pf @ bs\<rparr>) s"
  by (simp_all add: PickerFrame_create_button_def PickerFrame_create_custom_button_def
      PickerFrame__create_button_def Let_def) blast+

lemma id_adds:
  "\<exists>bs. id s = update_picker p (\<lambda>pf. pf\<lparr>pf_buttons := pf_buttons pf @ bs\<rparr>) s"
  using update_picker_append_Nil [of p s] by (metis id_apply)

lemma case_adds:
  "\<exists>bs. (case m of None \<Rightarrow> id
         | Some node_draw \<Rightarrow> PickerFrame_create_custom_button p (l node_draw) (i node_draw) (f node_draw)) s
      = update_picker p (\<lambda>pf. pf\<lparr>pf_buttons := pf_buttons pf @ bs\<rparr>) s"
  by (cases m) (use id_adds create_button_adds(2) in auto)

lemma update_picker_new:
  "update_picker (length ps) (\<lambda>pf. pf\<lparr>pf_buttons := pf_buttons pf @ bs\<rparr>)
     (t\<lparr>pickers := ps @ [\<lparr>pf_button = b, pf_buttons = [], pf_placed = False, pf_destroyed = False\<rparr>]\<rparr>)
   = t\<lparr>pickers := ps @ [\<lparr>pf_button = b, pf_buttons = bs, pf_placed = False, pf_destroyed = False\<rparr>]\<rparr>"
  by (simp add: update_picker_def)

text \<open>What opening a picker does, for each of the three pickers: the owning radio button is
  selected, one new picker (not yet placed) is appended and becomes \<^verbatim>\<open>self.picker\<close>, and its
  \<^verbatim>\<open>_show\<close> is scheduled. Nothing else changes.\<close>

lemma draw_node_picker_shape:
  "\<exists>bs. draw_node_picker t =
     t\<lparr>widgets := select_radio (design_frame t) (node_button t) (widgets t),
       pickers := pickers t @
         [\<lparr>pf_button = node_button t, pf_buttons = bs, pf_placed = False, pf_destroyed = False\<rparr>],
       picker := Some (length (pickers t)),
       app := (app t)\<lparr>after_queue := after_queue (app t) @ [length (pickers t)]\<rparr>\<rparr>"
proof -
  let ?t1 = "t\<lparr>widgets := select_radio (design_frame t) (node_button t) (widgets t)\<rparr>"
  let ?p = "length (pickers ?t1)"
  let ?t2 = "?t1\<lparr>pickers := pickers ?t1 @
         [\<lparr>pf_button = node_button ?t1, pf_buttons = [], pf_placed = False, pf_destroyed = False\<rparr>]\<rparr>"
  let ?t3 = "?t2\<lparr>picker := Some ?p\<rparr>"
  let ?g1 = "\<lambda>node_draw. PickerFrame_create_button ?p (nd_label node_draw) (nd_image_enum node_draw)
                   (Update_button (node_button ?t3) node_draw NodeTypeEnum_NODE)"
  let ?t4 = "fold ?g1 (NODES (app ?t3)) ?t3"
  let ?g2 = "\<lambda>name. case map_of (custom_nodes (app ?t4)) name of
                   None \<Rightarrow> id
                 | Some node_draw \<Rightarrow>
                     PickerFrame_create_custom_button ?p (nd_label node_draw) (nd_image_file node_draw)
                       (Update_button (node_button ?t3) node_draw NodeTypeEnum_NODE)"
  let ?t5 = "fold ?g2 (sort (remdups (map fst (custom_nodes (app ?t4))))) ?t4"
  obtain bs1 where 1: "?t4 = update_picker ?p (\<lambda>pf. pf\<lparr>pf_buttons := pf_buttons pf @ bs1\<rparr>) ?t3"
    using fold_adds_buttons [of "NODES (app ?t3)" ?g1 ?p ?t3, OF create_button_adds(1)] by blast
  obtain bs2 where 2: "?t5 = update_picker ?p (\<lambda>pf. pf\<lparr>pf_buttons := pf_buttons pf @ bs2\<rparr>) ?t4"
    using fold_adds_buttons [of "sort (remdups (map fst (custom_nodes (app ?t4))))" ?g2 ?p ?t4,
        OF case_adds] by blast
  have "draw_node_picker t = PickerFrame_show ?p ?t5"
    by (simp only: draw_node_picker_def PickerFrame_init_def Let_def prod.case)
  also have "\<dots> = PickerFrame_show ?p
      (update_picker ?p (\<lambda>pf. pf\<lparr>pf_buttons := pf_buttons pf @ bs2\<rparr>) ?t4)"
    by (simp only: 2)
  also have "\<dots> = PickerFrame_show ?p
      (update_picker ?p (\<lambda>pf. pf\<lparr>pf_buttons := pf_buttons pf @ (bs1 @ bs2)\<rparr>) ?t3)"
    by (simp only: 1 update_picker_append_append)
  also have "\<dots> = t\<lparr>widgets := select_radio (design_frame t) (node_button t) (widgets t),
       pickers := pickers t @
         [\<lparr>pf_button = node_button t, pf_buttons = bs1 @ bs2, pf_placed = False, pf_destroyed = False\<rparr>],
       picker := Some (length (pickers t)),
       app := (app t)\<lparr>after_queue := after_queue (app t) @ [length (pickers t)]\<rparr>\<rparr>"
    by (simp add: update_picker_def PickerFrame_show_def)
  finally show ?thesis by blast
qed


lemma draw_network_picker_shape:
  "\<exists>bs. draw_network_picker t =
     t\<lparr>widgets := select_radio (design_frame t) (network_button t) (widgets t),
       pickers := pickers t @
         [\<lparr>pf_button = network_button t, pf_buttons = bs, pf_placed = False, pf_destroyed = False\<rparr>],
       picker := Some (length (pickers t)),
       app := (app t)\<lparr>after_queue := after_queue (app t) @ [length (pickers t)]\<rparr>\<rparr>"
proof -
  let ?t1 = "t\<lparr>widgets := select_radio (design_frame t) (network_button t) (widgets t)\<rparr>"
  let ?p = "length (pickers ?t1)"
  let ?t2 = "?t1\<lparr>pickers := pickers ?t1 @
         [\<lparr>pf_button = network_button ?t1, pf_buttons = [], pf_placed = False, pf_destroyed = False\<rparr>]\<rparr>"
  let ?t3 = "?t2\<lparr>picker := Some ?p\<rparr>"
  let ?g1 = "\<lambda>node_draw. PickerFrame_create_button ?p (nd_label node_draw) (nd_image_enum node_draw)
                   (Update_button (network_button ?t3) node_draw NodeTypeEnum_NETWORK)"
  let ?t4 = "fold ?g1 (NETWORK_NODES (app ?t3)) ?t3"
  obtain bs1 where 1: "?t4 = update_picker ?p (\<lambda>pf. pf\<lparr>pf_buttons := pf_buttons pf @ bs1\<rparr>) ?t3"
    using fold_adds_buttons [of "NETWORK_NODES (app ?t3)" ?g1 ?p ?t3, OF create_button_adds(1)] by blast
  have "draw_network_picker t = PickerFrame_show ?p ?t4"
    by (simp only: draw_network_picker_def PickerFrame_init_def Let_def prod.case)
  also have "\<dots> = PickerFrame_show ?p
      (update_picker ?p (\<lambda>pf. pf\<lparr>pf_buttons := pf_buttons pf @ bs1\<rparr>) ?t3)"
    by (simp only: 1)
  also have "\<dots> = t\<lparr>widgets := select_radio (design_frame t) (network_button t) (widgets t),
       pickers := pickers t @
         [\<lparr>pf_button = network_button t, pf_buttons = bs1, pf_placed = False, pf_destroyed = False\<rparr>],
       picker := Some (length (pickers t)),
       app := (app t)\<lparr>after_queue := after_queue (app t) @ [length (pickers t)]\<rparr>\<rparr>"
    by (simp add: update_picker_def PickerFrame_show_def)
  finally show ?thesis by blast
qed

lemma case_prod_adds:
  "\<exists>bs. (case x of (image_enum, shape_type) \<Rightarrow>
           PickerFrame_create_button p (l shape_type) (Some image_enum) (f shape_type image_enum)) s
      = update_picker p (\<lambda>pf. pf\<lparr>pf_buttons := pf_buttons pf @ bs\<rparr>) s"
  by (cases x) (simp add: create_button_adds(1))

lemma draw_annotation_picker_shape:
  "\<exists>bs. draw_annotation_picker t =
     t\<lparr>widgets := select_radio (design_frame t) (annotation_button t) (widgets t),
       pickers := pickers t @
         [\<lparr>pf_button = annotation_button t, pf_buttons = bs, pf_placed = False, pf_destroyed = False\<rparr>],
       picker := Some (length (pickers t)),
       app := (app t)\<lparr>after_queue := after_queue (app t) @ [length (pickers t)]\<rparr>\<rparr>"
proof -
  let ?t1 = "t\<lparr>widgets := select_radio (design_frame t) (annotation_button t) (widgets t)\<rparr>"
  let ?p = "length (pickers ?t1)"
  let ?t2 = "?t1\<lparr>pickers := pickers ?t1 @
         [\<lparr>pf_button = annotation_button ?t1, pf_buttons = [], pf_placed = False, pf_destroyed = False\<rparr>]\<rparr>"
  let ?t3 = "?t2\<lparr>picker := Some ?p\<rparr>"
  let ?g1 = "\<lambda>(image_enum, shape_type).
                 PickerFrame_create_button ?p (ShapeType_value shape_type) (Some image_enum)
                   (Update_annotation shape_type image_enum)"
  let ?t4 = "fold ?g1 annotation_nodes ?t3"
  obtain bs1 where 1: "?t4 = update_picker ?p (\<lambda>pf. pf\<lparr>pf_buttons := pf_buttons pf @ bs1\<rparr>) ?t3"
    using fold_adds_buttons [of annotation_nodes ?g1 ?p ?t3, OF case_prod_adds] by blast
  have "draw_annotation_picker t = PickerFrame_show ?p ?t4"
    by (simp only: draw_annotation_picker_def PickerFrame_init_def Let_def prod.case)
  also have "\<dots> = PickerFrame_show ?p
      (update_picker ?p (\<lambda>pf. pf\<lparr>pf_buttons := pf_buttons pf @ bs1\<rparr>) ?t3)"
    by (simp only: 1)
  also have "\<dots> = t\<lparr>widgets := select_radio (design_frame t) (annotation_button t) (widgets t),
       pickers := pickers t @
         [\<lparr>pf_button = annotation_button t, pf_buttons = bs1, pf_placed = False, pf_destroyed = False\<rparr>],
       picker := Some (length (pickers t)),
       app := (app t)\<lparr>after_queue := after_queue (app t) @ [length (pickers t)]\<rparr>\<rparr>"
    by (simp add: update_picker_def PickerFrame_show_def)
  finally show ?thesis by blast
qed

text \<open>The same, for whichever owner button: what the three pickers have in common.\<close>

lemma draw_picker_common:
  assumes "d = draw_node_picker \<and> b = node_button t
         \<or> d = draw_network_picker \<and> b = network_button t
         \<or> d = draw_annotation_picker \<and> b = annotation_button t"
  shows "\<exists>bs. d t =
     t\<lparr>widgets := select_radio (design_frame t) b (widgets t),
       pickers := pickers t @
         [\<lparr>pf_button = b, pf_buttons = bs, pf_placed = False, pf_destroyed = False\<rparr>],
       picker := Some (length (pickers t)),
       app := (app t)\<lparr>after_queue := after_queue (app t) @ [length (pickers t)]\<rparr>\<rparr>"
  using assms draw_node_picker_shape [of t] draw_network_picker_shape [of t]
    draw_annotation_picker_shape [of t]
  by (elim disjE conjE) simp_all

subsection \<open>Every call keeps the widget tree well formed\<close>

lemma widget_tree_pickers_update [simp]:
  "widget_tree (t\<lparr>pickers := ps\<rparr>) = widget_tree t"
  "widget_tree (t\<lparr>picker := pk\<rparr>) = widget_tree t"
  "widget_tree (t\<lparr>app := a\<rparr>) = widget_tree t"
  "widget_tree (t\<lparr>widgets := ws\<rparr>) = widget_tree t"
  "widget_tree (t\<lparr>dialogs := ds\<rparr>) = widget_tree t"
  "widget_tree (t\<lparr>marker_tool := m\<rparr>) = widget_tree t"
  "widget_tree (t\<lparr>raised := r\<rparr>) = widget_tree t"
  "widget_tree (t\<lparr>node_enum := ne\<rparr>) = widget_tree t"
  "widget_tree (t\<lparr>node_file := nf\<rparr>) = widget_tree t"
  "widget_tree (t\<lparr>network_enum := ne\<rparr>) = widget_tree t"
  "widget_tree (t\<lparr>annotation_enum := ne\<rparr>) = widget_tree t"
  "widget_tree (t\<lparr>effects := es\<rparr>) = widget_tree t"
  "widget_tree (perform e t) = widget_tree t"
  "widget_tree (enable_buttons frame enabled t) = widget_tree t"
  by (simp_all add: widget_tree_def)

lemma widget_tree_draw_picker [simp]:
  "widget_tree (draw_node_picker t) = widget_tree t"
  "widget_tree (draw_network_picker t) = widget_tree t"
  "widget_tree (draw_annotation_picker t) = widget_tree t"
proof -
  obtain bs1 bs2 bs3 where
    "draw_node_picker t =
     t\<lparr>widgets := select_radio (design_frame t) (node_button t) (widgets t),
       pickers := pickers t @
         [\<lparr>pf_button = node_button t, pf_buttons = bs1, pf_placed = False, pf_destroyed = False\<rparr>],
       picker := Some (length (pickers t)),
       app := (app t)\<lparr>after_queue := after_queue (app t) @ [length (pickers t)]\<rparr>\<rparr>"
    "draw_network_picker t =
     t\<lparr>widgets := select_radio (design_frame t) (network_button t) (widgets t),
       pickers := pickers t @
         [\<lparr>pf_button = network_button t, pf_buttons = bs2, pf_placed = False, pf_destroyed = False\<rparr>],
       picker := Some (length (pickers t)),
       app := (app t)\<lparr>after_queue := after_queue (app t) @ [length (pickers t)]\<rparr>\<rparr>"
    "draw_annotation_picker t =
     t\<lparr>widgets := select_radio (design_frame t) (annotation_button t) (widgets t),
       pickers := pickers t @
         [\<lparr>pf_button = annotation_button t, pf_buttons = bs3, pf_placed = False, pf_destroyed = False\<rparr>],
       picker := Some (length (pickers t)),
       app := (app t)\<lparr>after_queue := after_queue (app t) @ [length (pickers t)]\<rparr>\<rparr>"
    using draw_node_picker_shape [of t] draw_network_picker_shape [of t]
      draw_annotation_picker_shape [of t] by blast
  then show "widget_tree (draw_node_picker t) = widget_tree t"
    "widget_tree (draw_network_picker t) = widget_tree t"
    "widget_tree (draw_annotation_picker t) = widget_tree t"
    by simp_all
qed

lemma widget_tree_update_button [simp]:
  "widget_tree (update_button button node_draw type_enum img t) = widget_tree t"
  by (simp add: update_button_def Let_def)

lemma widget_tree_dialogs [simp]:
  "widget_tree (dialog_show d t) = widget_tree t"
  "widget_tree (dialog_destroy d t) = widget_tree t"
  "widget_tree (snd (new_dialog kind t)) = widget_tree t"
  by (simp_all add: dialog_show_def dialog_destroy_def new_dialog_def)

lemma widget_tree_update_annotation [simp]:
  "widget_tree (update_annotation shape_type image_enum img t) = widget_tree t"
  by (simp add: update_annotation_def Let_def split_def split: option.split)

lemma widget_tree_click_run_button [simp]:
  "widget_tree (click_run_button t) = widget_tree t"
  by (simp add: click_run_button_def Let_def split_def)

lemma widget_tree_click_marker_button [simp]:
  "widget_tree (click_marker_button t) = widget_tree t"
  by (simp add: click_marker_button_def Let_def split_def split: option.split)

lemma widget_tree_scale_button [simp]:
  "widget_tree (scale_button button image_enum image_file t) = widget_tree t"
  by (simp add: scale_button_def Let_def)

lemma scale_button_fields [simp]:
  "app (scale_button button image_enum image_file t) = app t"
  "node_enum (scale_button button image_enum image_file t) = node_enum t"
  "node_file (scale_button button image_enum image_file t) = node_file t"
  "network_enum (scale_button button image_enum image_file t) = network_enum t"
  "annotation_enum (scale_button button image_enum image_file t) = annotation_enum t"
  "pickers (scale_button button image_enum image_file t) = pickers t"
  "play_button (scale_button button image_enum image_file t) = play_button t"
  "select_button (scale_button button image_enum image_file t) = select_button t"
  "link_button (scale_button button image_enum image_file t) = link_button t"
  "node_button (scale_button button image_enum image_file t) = node_button t"
  "network_button (scale_button button image_enum image_file t) = network_button t"
  "annotation_button (scale_button button image_enum image_file t) = annotation_button t"
  "runtime_select_button (scale_button button image_enum image_file t) = runtime_select_button t"
  "stop_button (scale_button button image_enum image_file t) = stop_button t"
  "runtime_marker_button (scale_button button image_enum image_file t) = runtime_marker_button t"
  "run_command_button (scale_button button image_enum image_file t) = run_command_button t"
  by (simp_all add: scale_button_def Let_def)

lemma scale_button_guarded:
  "(if truthy_enum image_enum then scale_button button image_enum None t else t)
     = scale_button button image_enum None t"
  "(if truthy_str image_file then scale_button button None image_file t else t)
     = scale_button button None image_file t"
  by (simp_all add: scale_button_def)

text \<open>\<^verbatim>\<open>scale\<close> as one chain of \<^verbatim>\<open>scale_button\<close> calls on the buttons and icon fields of the
  state it starts from.\<close>

lemma scale_chain:
  "scale t =
     scale_button (run_command_button t) (Some ImageEnum_RUN) None
      (scale_button (runtime_marker_button t) (Some ImageEnum_MARKER) None
        (scale_button (stop_button t) (Some ImageEnum_STOP) None
          (scale_button (runtime_select_button t) (Some ImageEnum_SELECT) None
            (scale_button (annotation_button t) (annotation_enum t) None
              (scale_button (network_button t) (network_enum t) None
                (scale_button (node_button t) None (node_file t)
                  (scale_button (node_button t) (node_enum t) None
                    (scale_button (link_button t) (Some ImageEnum_LINK) None
                      (scale_button (select_button t) (Some ImageEnum_SELECT) None
                        (scale_button (play_button t) (Some ImageEnum_START) None t))))))))))"
  by (simp add: scale_def Let_def scale_button_guarded)

lemma widget_tree_scale [simp]:
  "widget_tree (scale t) = widget_tree t"
  by (simp add: scale_chain)

lemma widget_tree_picker_ops [simp]:
  "widget_tree (update_picker p f t) = widget_tree t"
  "widget_tree (PickerFrame__show_open p t) = widget_tree t"
  "widget_tree (PickerFrame__show_resume t) = widget_tree t"
  "widget_tree (PickerFrame_destroy p t) = widget_tree t"
  by (simp_all add: update_picker_def PickerFrame__show_open_def PickerFrame__show_resume_def
      PickerFrame_destroy_def Let_def)

lemma widget_tree_call_picker_func [simp]:
  "widget_tree (call_picker_func func bar_image t) = widget_tree t"
  by (cases func) (simp_all add: call_picker_func_def)

lemma widget_tree_run_after [simp]:
  "widget_tree (run_after t) = widget_tree t"
  by (simp add: run_after_def split: list.split)

lemma widget_tree_button_release [simp]:
  "widget_tree (button_release target t) = widget_tree t"
  by (simp add: button_release_def Let_def split: option.split prod.split)

lemma create_observe_button_fields:
  "design_frame (create_observe_button t) = design_frame t"
  "children (runtime_frame (create_observe_button t)) = children (runtime_frame t) @ [num_widgets t]"
  "radio_buttons (runtime_frame (create_observe_button t)) = radio_buttons (runtime_frame t)"
  "num_widgets (create_observe_button t) = Suc (num_widgets t)"
  "play_button (create_observe_button t) = play_button t"
  "select_button (create_observe_button t) = select_button t"
  "link_button (create_observe_button t) = link_button t"
  "node_button (create_observe_button t) = node_button t"
  "network_button (create_observe_button t) = network_button t"
  "annotation_button (create_observe_button t) = annotation_button t"
  "runtime_select_button (create_observe_button t) = runtime_select_button t"
  "stop_button (create_observe_button t) = stop_button t"
  "runtime_marker_button (create_observe_button t) = runtime_marker_button t"
  "run_command_button (create_observe_button t) = run_command_button t"
  by (simp_all add: create_observe_button_def Let_def)

lemma wf_toolbar_create_observe_button:
  assumes "wf_toolbar t"
  shows "wf_toolbar (create_observe_button t)"
proof -
  let ?n = "num_widgets t"
  from assms have l1: "list_all (\<lambda>b. b < ?n) (children (design_frame t))"
    and l2: "list_all (\<lambda>b. b < ?n) (children (runtime_frame t))"
    unfolding wf_toolbar_def by blast+
  from l1 l2 have fresh: "?n \<notin> set (children (design_frame t))"
    "?n \<notin> set (children (runtime_frame t))"
    by (auto simp: list_all_iff)
  from l1 l2 have lt: "list_all (\<lambda>b. b < Suc ?n) (children (design_frame t))"
    "list_all (\<lambda>b. b < Suc ?n) (children (runtime_frame t) @ [?n])"
    by (auto simp: list_all_iff less_Suc_eq)
  from assms have disj: "set (children (design_frame t)) \<inter> set (children (runtime_frame t)) = {}"
    and sub: "set (radio_buttons (runtime_frame t)) \<subseteq> set (children (runtime_frame t))"
    and stop: "stop_button t \<in> set (children (runtime_frame t))"
    unfolding wf_toolbar_def by blast+
  from disj fresh have disj': "set (children (design_frame t)) \<inter> set (children (runtime_frame t) @ [?n]) = {}"
    by auto
  from sub have sub': "set (radio_buttons (runtime_frame t)) \<subseteq> set (children (runtime_frame t) @ [?n])"
    by auto
  from stop have stop': "stop_button t \<in> set (children (runtime_frame t) @ [?n])"
    by simp
  show ?thesis
    unfolding wf_toolbar_def create_observe_button_fields
    by (insert assms [unfolded wf_toolbar_def] lt disj' sub' stop', elim conjE, intro conjI;
        assumption)
qed

lemma wf_toolbar_same_tree:
  "wf_toolbar t \<Longrightarrow> widget_tree t' = widget_tree t \<Longrightarrow> wf_toolbar t'"
  by (simp add: wf_toolbar_def widget_tree_def)

lemma wf_toolbar_exec:
  "wf_toolbar t \<Longrightarrow> wf_toolbar (exec c t)"
  by (cases c; simp; (erule wf_toolbar_create_observe_button | (erule wf_toolbar_same_tree, simp)))

lemma wf_toolbar_run:
  "wf_toolbar t \<Longrightarrow> wf_toolbar (run calls t)"
  unfolding run_def by (induction calls arbitrary: t) (simp_all add: wf_toolbar_exec)

text \<open>In every state the toolbar can reach from its construction, the widget tree is well
  formed.\<close>

lemma wf_toolbar_reachable:
  "wf_toolbar (run calls (Toolbar_init a))"
  by (rule wf_toolbar_run) (rule wf_toolbar_init)

subsection \<open>The icon of the node button\<close>

lemma icon_fields_update [simp]:
  "node_enum (t\<lparr>app := a\<rparr>) = node_enum t" "node_file (t\<lparr>app := a\<rparr>) = node_file t"
  "node_enum (t\<lparr>widgets := ws\<rparr>) = node_enum t" "node_file (t\<lparr>widgets := ws\<rparr>) = node_file t"
  by simp_all

lemma node_icon_inv_same:
  "node_icon_inv t \<Longrightarrow> node_enum t' = node_enum t \<Longrightarrow> node_file t' = node_file t
     \<Longrightarrow> node_icon_inv t'"
  by (simp add: node_icon_inv_def)

lemma icon_fields_session:
  "node_enum (click_selection t) = node_enum t" "node_file (click_selection t) = node_file t"
  "node_enum (click_runtime_selection t) = node_enum t" "node_file (click_runtime_selection t) = node_file t"
  "node_enum (click_link t) = node_enum t" "node_file (click_link t) = node_file t"
  "node_enum (click_start t) = node_enum t" "node_file (click_start t) = node_file t"
  "node_enum (click_stop t) = node_enum t" "node_file (click_stop t) = node_file t"
  "node_enum (set_runtime t) = node_enum t" "node_file (set_runtime t) = node_file t"
  "node_enum (set_design t) = node_enum t" "node_file (set_design t) = node_file t"
  "node_enum (start_callback response t) = node_enum t" "node_file (start_callback response t) = node_file t"
  "node_enum (stop_callback response' t) = node_enum t" "node_file (stop_callback response' t) = node_file t"
  "node_enum (create_observe_button t) = node_enum t" "node_file (create_observe_button t) = node_file t"
  by (simp_all add: click_selection_def click_runtime_selection_def click_link_def
      click_start_def click_stop_def set_runtime_def set_design_def start_callback_def
      stop_callback_def create_observe_button_def Let_def)

lemma icon_fields_dialogs:
  "node_enum (dialog_show d t) = node_enum t" "node_file (dialog_show d t) = node_file t"
  "node_enum (dialog_destroy d t) = node_enum t" "node_file (dialog_destroy d t) = node_file t"
  "node_enum (snd (new_dialog kind t)) = node_enum t" "node_file (snd (new_dialog kind t)) = node_file t"
  by (simp_all add: dialog_show_def dialog_destroy_def new_dialog_def)

lemma icon_fields_marker:
  "node_enum (update_annotation shape_type image_enum img t) = node_enum t"
  "node_file (update_annotation shape_type image_enum img t) = node_file t"
  "node_enum (click_run_button t) = node_enum t" "node_file (click_run_button t) = node_file t"
  "node_enum (click_marker_button t) = node_enum t" "node_file (click_marker_button t) = node_file t"
  by (simp_all add: update_annotation_def click_run_button_def click_marker_button_def Let_def
      split_def icon_fields_dialogs split: option.split)

lemma icon_fields_scale:
  "node_enum (scale t) = node_enum t" "node_file (scale t) = node_file t"
  by (simp_all add: scale_chain)

lemma icon_fields_picker_ops:
  "node_enum (update_picker p f t) = node_enum t" "node_file (update_picker p f t) = node_file t"
  "node_enum (PickerFrame__show_open p t) = node_enum t"
  "node_file (PickerFrame__show_open p t) = node_file t"
  "node_enum (PickerFrame__show_resume t) = node_enum t"
  "node_file (PickerFrame__show_resume t) = node_file t"
  "node_enum (PickerFrame_destroy p t) = node_enum t"
  "node_file (PickerFrame_destroy p t) = node_file t"
  "node_enum (run_after t) = node_enum t" "node_file (run_after t) = node_file t"
  by (simp_all add: update_picker_def PickerFrame__show_open_def PickerFrame__show_resume_def
      PickerFrame_destroy_def run_after_def Let_def split: list.split)

lemma icon_fields_draw_picker:
  "node_enum (draw_node_picker t) = node_enum t" "node_file (draw_node_picker t) = node_file t"
  "node_enum (draw_network_picker t) = node_enum t" "node_file (draw_network_picker t) = node_file t"
  "node_enum (draw_annotation_picker t) = node_enum t"
  "node_file (draw_annotation_picker t) = node_file t"
proof -
  from draw_node_picker_shape [of t] obtain bs1 where 1: "draw_node_picker t =
     t\<lparr>widgets := select_radio (design_frame t) (node_button t) (widgets t),
       pickers := pickers t @
         [\<lparr>pf_button = node_button t, pf_buttons = bs1, pf_placed = False, pf_destroyed = False\<rparr>],
       picker := Some (length (pickers t)),
       app := (app t)\<lparr>after_queue := after_queue (app t) @ [length (pickers t)]\<rparr>\<rparr>" by blast
  from draw_network_picker_shape [of t] obtain bs2 where 2: "draw_network_picker t =
     t\<lparr>widgets := select_radio (design_frame t) (network_button t) (widgets t),
       pickers := pickers t @
         [\<lparr>pf_button = network_button t, pf_buttons = bs2, pf_placed = False, pf_destroyed = False\<rparr>],
       picker := Some (length (pickers t)),
       app := (app t)\<lparr>after_queue := after_queue (app t) @ [length (pickers t)]\<rparr>\<rparr>" by blast
  from draw_annotation_picker_shape [of t] obtain bs3 where 3: "draw_annotation_picker t =
     t\<lparr>widgets := select_radio (design_frame t) (annotation_button t) (widgets t),
       pickers := pickers t @
         [\<lparr>pf_button = annotation_button t, pf_buttons = bs3, pf_placed = False, pf_destroyed = False\<rparr>],
       picker := Some (length (pickers t)),
       app := (app t)\<lparr>after_queue := after_queue (app t) @ [length (pickers t)]\<rparr>\<rparr>" by blast
  show "node_enum (draw_node_picker t) = node_enum t" "node_file (draw_node_picker t) = node_file t"
    by (simp_all add: 1)
  show "node_enum (draw_network_picker t) = node_enum t"
    "node_file (draw_network_picker t) = node_file t"
    by (simp_all add: 2)
  show "node_enum (draw_annotation_picker t) = node_enum t"
    "node_file (draw_annotation_picker t) = node_file t"
    by (simp_all add: 3)
qed

lemmas icon_fields = icon_fields_session icon_fields_marker icon_fields_scale
  icon_fields_picker_ops icon_fields_draw_picker scale_button_fields(2,3)

text \<open>\<^verbatim>\<open>update_button\<close> is the only method that writes \<^verbatim>\<open>node_enum\<close> and \<^verbatim>\<open>node_file\<close>; for the
  \<^verbatim>\<open>NODE\<close> type it takes one of three branches.\<close>

lemma update_button_node_cases:
  "(node_enum (update_button button node_draw NodeTypeEnum_NODE img t) = nd_image_enum node_draw
      \<and> truthy_enum (nd_image_enum node_draw)
      \<and> node_file (update_button button node_draw NodeTypeEnum_NODE img t) = None)
   \<or> (node_file (update_button button node_draw NodeTypeEnum_NODE img t) = nd_image_file node_draw
      \<and> truthy_str (nd_image_file node_draw)
      \<and> node_enum (update_button button node_draw NodeTypeEnum_NODE img t) = None)
   \<or> (node_enum (update_button button node_draw NodeTypeEnum_NODE img t) = node_enum t
      \<and> node_file (update_button button node_draw NodeTypeEnum_NODE img t) = node_file t)"
  by (simp add: update_button_def Let_def)

lemma update_button_other_type:
  "type_enum \<noteq> NodeTypeEnum_NODE \<Longrightarrow>
     node_enum (update_button button node_draw type_enum img t) = node_enum t
     \<and> node_file (update_button button node_draw type_enum img t) = node_file t"
  by (simp add: update_button_def Let_def)

lemma truthy_enum_iff: "truthy_enum e \<longleftrightarrow> e \<noteq> None"
  by (cases e) simp_all

lemma truthy_str_iff: "truthy_str f \<longleftrightarrow> f \<noteq> None \<and> f \<noteq> Some []"
  by (cases f) simp_all

lemma node_icon_inv_update_button:
  assumes "node_icon_inv t"
  shows "node_icon_inv (update_button button node_draw type_enum img t)"
proof (cases "type_enum = NodeTypeEnum_NODE")
  case True
  with update_button_node_cases [of button node_draw img t] assms show ?thesis
    by (auto simp: node_icon_inv_def truthy_enum_iff truthy_str_iff)
next
  case False
  with update_button_other_type [of type_enum button node_draw img t] assms show ?thesis
    by (simp add: node_icon_inv_def)
qed

lemma node_icon_inv_call_picker_func:
  "node_icon_inv t \<Longrightarrow> node_icon_inv (call_picker_func func bar_image t)"
  by (cases func)
    (auto simp: call_picker_func_def node_icon_inv_update_button
          intro: node_icon_inv_same [OF _ icon_fields_marker(1,2)])

lemma node_icon_inv_button_release:
  assumes "node_icon_inv t"
  shows "node_icon_inv (button_release target t)"
proof -
  let ?t1 = "case target of
                  None \<Rightarrow> t
                | Some (p, i) \<Rightarrow>
                    if p < length (pickers t) \<and> is_open (pickers t ! p)
                       \<and> i < length (pf_buttons (pickers t ! p))
                    then (let b = pf_buttons (pickers t ! p) ! i
                          in call_picker_func (pb_func b) (pb_bar_image b) t)
                    else t"
  from assms have 1: "node_icon_inv ?t1"
    by (auto simp: Let_def node_icon_inv_call_picker_func split: option.split)
  have "node_icon_inv (case bind_all_release (app ?t1) of
           None \<Rightarrow> ?t1
         | Some q \<Rightarrow> PickerFrame__show_resume (PickerFrame_destroy q ?t1))"
    using 1 by (auto split: option.split intro: node_icon_inv_same simp: icon_fields_picker_ops)
  then show ?thesis
    by (simp only: button_release_def Let_def)
qed

lemma node_icon_inv_exec:
  "node_icon_inv t \<Longrightarrow> node_icon_inv (exec c t)"
  by (cases c; simp;
      (erule node_icon_inv_update_button | erule node_icon_inv_button_release
       | (erule node_icon_inv_same; simp add: icon_fields)))

lemma node_icon_inv_run:
  "node_icon_inv t \<Longrightarrow> node_icon_inv (run calls t)"
  unfolding run_def by (induction calls arbitrary: t) (simp_all add: node_icon_inv_exec)

lemma node_icon_inv_init: "node_icon_inv (Toolbar_init a)"
  by (simp add: node_icon_inv_def Toolbar_init_fields)


lemma scale_button_image:
  "w_image (widgets (scale_button button image_enum image_file t) x) =
     (if x = button \<and> (truthy_enum image_enum \<or> truthy_str image_file)
      then Some (if truthy_enum image_enum then get_icon image_enum TOOLBAR_SIZE
                 else get_custom_icon image_file TOOLBAR_SIZE)
      else w_image (widgets t x))"
  by (simp add: scale_button_def set_image_def)

lemma scale_node_button_image:
  assumes "wf_toolbar t" and "node_icon_inv t"
  shows "w_image (widgets (scale t) (node_button t)) =
           Some (if truthy_enum (node_enum t) then get_icon (node_enum t) TOOLBAR_SIZE
                 else get_custom_icon (node_file t) TOOLBAR_SIZE)"
proof -
  from assms(1) have "distinct [play_button t, select_button t, link_button t, node_button t,
            network_button t, annotation_button t, runtime_select_button t, stop_button t,
            runtime_marker_button t, run_command_button t]"
    unfolding wf_toolbar_def by blast
  then have ne: "node_button t \<noteq> network_button t" "node_button t \<noteq> annotation_button t"
    "node_button t \<noteq> runtime_select_button t" "node_button t \<noteq> stop_button t"
    "node_button t \<noteq> runtime_marker_button t" "node_button t \<noteq> run_command_button t"
    by auto
  from assms(2) have src: "truthy_enum (node_enum t) \<noteq> truthy_str (node_file t)"
    by (auto simp: node_icon_inv_def truthy_enum_iff truthy_str_iff)
  show ?thesis
    using ne src by (auto simp: scale_chain scale_button_image)
qed

text \<open>
  Claim C9. The toolbar keeps exactly one source for the node button's icon. Construction sets
  \<^verbatim>\<open>node_enum\<close> to \<^verbatim>\<open>ROUTER\<close> and leaves \<^verbatim>\<open>node_file\<close> \<^verbatim>\<open>None\<close>. An \<^verbatim>\<open>update_button\<close> call for the
  \<^verbatim>\<open>NODE\<close> type either sets \<^verbatim>\<open>node_enum\<close> (to a member) and clears \<^verbatim>\<open>node_file\<close>, or sets
  \<^verbatim>\<open>node_file\<close> (to a non-empty name) and clears \<^verbatim>\<open>node_enum\<close>, or changes neither. Every call
  of the toolbar keeps the invariant, so it holds in every state reached from construction.
  Under it exactly one of the two guards of \<^verbatim>\<open>scale\<close> holds, and \<^verbatim>\<open>scale\<close> gives the node button
  the icon of that one source.
\<close>

theorem node_icon_single_source:
  "node_enum (Toolbar_init a) = Some ImageEnum_ROUTER \<and> node_file (Toolbar_init a) = None
   \<and> ((node_enum (update_button button node_draw NodeTypeEnum_NODE img t) = nd_image_enum node_draw
          \<and> truthy_enum (nd_image_enum node_draw)
          \<and> node_file (update_button button node_draw NodeTypeEnum_NODE img t) = None)
       \<or> (node_file (update_button button node_draw NodeTypeEnum_NODE img t) = nd_image_file node_draw
          \<and> truthy_str (nd_image_file node_draw)
          \<and> node_enum (update_button button node_draw NodeTypeEnum_NODE img t) = None)
       \<or> (node_enum (update_button button node_draw NodeTypeEnum_NODE img t) = node_enum t
          \<and> node_file (update_button button node_draw NodeTypeEnum_NODE img t) = node_file t))
   \<and> (node_icon_inv t \<longrightarrow> node_icon_inv (exec c t))
   \<and> node_icon_inv (run calls (Toolbar_init a))
   \<and> (wf_toolbar t \<and> node_icon_inv t \<longrightarrow>
         truthy_enum (node_enum t) \<noteq> truthy_str (node_file t)
         \<and> w_image (widgets (scale t) (node_button t)) =
             Some (if truthy_enum (node_enum t) then get_icon (node_enum t) TOOLBAR_SIZE
                   else get_custom_icon (node_file t) TOOLBAR_SIZE))"
proof -
  have 1: "node_enum (Toolbar_init a) = Some ImageEnum_ROUTER \<and> node_file (Toolbar_init a) = None"
    by (simp add: Toolbar_init_fields)
  have 3: "node_icon_inv t \<longrightarrow> node_icon_inv (exec c t)"
    by (simp add: node_icon_inv_exec)
  have 4: "node_icon_inv (run calls (Toolbar_init a))"
    by (rule node_icon_inv_run) (rule node_icon_inv_init)
  have 5: "truthy_enum (node_enum t) \<noteq> truthy_str (node_file t)" if "node_icon_inv t"
    using that by (auto simp: node_icon_inv_def truthy_enum_iff truthy_str_iff)
  from 1 update_button_node_cases [of button node_draw img t] 3 4 5 scale_node_button_image [of t]
  show ?thesis by blast
qed

theorem node_icon_single_source_witness:
  "wf_toolbar (Toolbar_init app0) \<and> node_icon_inv (Toolbar_init app0)
   \<and> w_image (widgets (scale (Toolbar_init app0)) 3) = Some (Icon (Some ImageEnum_ROUTER) 32)
   \<and> node_icon_inv (exec (Call_update_button 3
        \<lparr>nd_label = ''mynode'', nd_image_enum = None, nd_image_file = Some ''my.png''\<rparr>
        NodeTypeEnum_NODE (CustomIcon (Some ''my.png'') 32)) (Toolbar_init app0))
   \<and> node_file (update_button 3
        \<lparr>nd_label = ''mynode'', nd_image_enum = None, nd_image_file = Some ''my.png''\<rparr>
        NodeTypeEnum_NODE (CustomIcon (Some ''my.png'') 32) (Toolbar_init app0)) = Some ''my.png''
   \<and> node_enum (update_button 3
        \<lparr>nd_label = ''mynode'', nd_image_enum = None, nd_image_file = Some ''my.png''\<rparr>
        NodeTypeEnum_NODE (CustomIcon (Some ''my.png'') 32) (Toolbar_init app0)) = None"
proof -
  let ?nd = "\<lparr>nd_label = ''mynode'', nd_image_enum = None, nd_image_file = Some ''my.png''\<rparr>"
  let ?img = "CustomIcon (Some ''my.png'') 32"
  note T = node_icon_single_source [of app0 3 ?nd ?img "Toolbar_init app0"
      "Call_update_button 3 ?nd NodeTypeEnum_NODE ?img" "[]"]
  have w: "wf_toolbar (Toolbar_init app0)" by (rule wf_toolbar_init)
  have i: "node_icon_inv (Toolbar_init app0)"
    by (simp add: node_icon_inv_def Toolbar_init_fields)
  from T i have e: "node_icon_inv (exec (Call_update_button 3 ?nd NodeTypeEnum_NODE ?img) (Toolbar_init app0))"
    by blast
  from T w i have "w_image (widgets (scale (Toolbar_init app0)) (node_button (Toolbar_init app0))) =
      Some (if truthy_enum (node_enum (Toolbar_init app0))
            then get_icon (node_enum (Toolbar_init app0)) TOOLBAR_SIZE
            else get_custom_icon (node_file (Toolbar_init app0)) TOOLBAR_SIZE)"
    by blast
  then have s: "w_image (widgets (scale (Toolbar_init app0)) 3) = Some (Icon (Some ImageEnum_ROUTER) 32)"
    by (simp add: Toolbar_init_fields Toolbar_init_buttons get_icon_def TOOLBAR_SIZE_def)
  have u: "node_file (update_button 3 ?nd NodeTypeEnum_NODE ?img (Toolbar_init app0)) = Some ''my.png''"
    "node_enum (update_button 3 ?nd NodeTypeEnum_NODE ?img (Toolbar_init app0)) = None"
    by (simp_all add: update_button_def Let_def)
  from w i s e u show ?thesis by simp
qed

subsection \<open>Pickers\<close>

lemma open_pickers_iff:
  "q \<in> set (open_pickers t) \<longleftrightarrow> q < length (pickers t) \<and> is_open (pickers t ! q)"
  by (auto simp: open_pickers_def)

lemma open_kept:
  "q \<in> set (open_pickers t) \<Longrightarrow> pickers t' = pickers t \<Longrightarrow> q \<in> set (open_pickers t')"
  by (simp add: open_pickers_def)

lemma pickers_session:
  "pickers (click_selection t) = pickers t"
  "pickers (click_runtime_selection t) = pickers t"
  "pickers (click_link t) = pickers t"
  "pickers (click_start t) = pickers t"
  "pickers (click_stop t) = pickers t"
  "pickers (set_runtime t) = pickers t"
  "pickers (set_design t) = pickers t"
  "pickers (start_callback response t) = pickers t"
  "pickers (stop_callback response' t) = pickers t"
  "pickers (create_observe_button t) = pickers t"
  "pickers (update_button button node_draw type_enum img t) = pickers t"
  by (simp_all add: click_selection_def click_runtime_selection_def click_link_def
      click_start_def click_stop_def set_runtime_def set_design_def start_callback_def
      stop_callback_def create_observe_button_def update_button_def Let_def)

lemma pickers_dialogs:
  "pickers (dialog_show d t) = pickers t"
  "pickers (dialog_destroy d t) = pickers t"
  "pickers (snd (new_dialog kind t)) = pickers t"
  by (simp_all add: dialog_show_def dialog_destroy_def new_dialog_def)

lemma pickers_marker:
  "pickers (update_annotation shape_type image_enum img t) = pickers t"
  "pickers (click_run_button t) = pickers t"
  "pickers (click_marker_button t) = pickers t"
  by (simp_all add: update_annotation_def click_run_button_def click_marker_button_def Let_def
      split_def pickers_dialogs split: option.split)

lemma pickers_scale:
  "pickers (scale t) = pickers t"
  by (simp add: scale_chain)

lemma pickers_call_picker_func:
  "pickers (call_picker_func func bar_image t) = pickers t"
  by (cases func) (simp_all add: call_picker_func_def pickers_session pickers_marker)

lemmas pickers_kept = pickers_session pickers_marker pickers_scale scale_button_fields(6)

text \<open>Opening: \<^verbatim>\<open>_show\<close> places its own picker and touches no other.\<close>

lemma show_open_pickers:
  "length (pickers (PickerFrame__show_open p t)) = length (pickers t)"
  "q \<noteq> p \<Longrightarrow> pickers (PickerFrame__show_open p t) ! q = pickers t ! q"
  "p < length (pickers t) \<Longrightarrow>
     pickers (PickerFrame__show_open p t) ! p = (pickers t ! p)\<lparr>pf_placed := True\<rparr>"
  by (simp_all add: PickerFrame__show_open_def update_picker_def Let_def)

lemma show_open_keeps_open:
  assumes "q \<in> set (open_pickers t)"
  shows "q \<in> set (open_pickers (PickerFrame__show_open p t))"
proof (cases "q = p")
  case True
  with assms show ?thesis
    by (simp add: open_pickers_iff show_open_pickers is_open_def)
next
  case False
  with assms show ?thesis
    by (simp add: open_pickers_iff show_open_pickers)
qed

lemma run_after_keeps_open:
  "q \<in> set (open_pickers t) \<Longrightarrow> q \<in> set (open_pickers (run_after t))"
proof (cases "after_queue (app t)")
  case Nil
  assume "q \<in> set (open_pickers t)"
  with Nil show ?thesis by (simp add: run_after_def)
next
  case (Cons p ps)
  assume "q \<in> set (open_pickers t)"
  then have "q \<in> set (open_pickers (t\<lparr>app := (app t)\<lparr>after_queue := ps\<rparr>\<rparr>))"
    by (simp add: open_pickers_def)
  then have "q \<in> set (open_pickers (PickerFrame__show_open p (t\<lparr>app := (app t)\<lparr>after_queue := ps\<rparr>\<rparr>)))"
    by (rule show_open_keeps_open)
  with Cons show ?thesis by (simp add: run_after_def)
qed

text \<open>What the three \<^verbatim>\<open>draw_..._picker\<close> methods do to the pickers and to everything a picker
  callback would change.\<close>

lemma draw_picker_effect:
  assumes "d = draw_node_picker \<and> b = node_button t
         \<or> d = draw_network_picker \<and> b = network_button t
         \<or> d = draw_annotation_picker \<and> b = annotation_button t"
  shows "picker (d t) = Some (length (pickers t))"
    and "length (pickers (d t)) = Suc (length (pickers t))"
    and "\<forall>q < length (pickers t). pickers (d t) ! q = pickers t ! q"
    and "pf_button (pickers (d t) ! length (pickers t)) = b"
    and "\<not> pf_placed (pickers (d t) ! length (pickers t))"
    and "\<not> pf_destroyed (pickers (d t) ! length (pickers t))"
    and "app (d t) = (app t)\<lparr>after_queue := after_queue (app t) @ [length (pickers t)]\<rparr>"
    and "\<forall>x. w_image (widgets (d t) x) = w_image (widgets t x)"
    and "\<forall>x. w_state (widgets (d t) x) = w_state (widgets t x)"
    and "node_enum (d t) = node_enum t \<and> node_file (d t) = node_file t
         \<and> network_enum (d t) = network_enum t \<and> annotation_enum (d t) = annotation_enum t"
    and "dialogs (d t) = dialogs t \<and> marker_tool (d t) = marker_tool t"
proof -
  from draw_picker_common [OF assms] obtain bs where eq: "d t =
     t\<lparr>widgets := select_radio (design_frame t) b (widgets t),
       pickers := pickers t @
         [\<lparr>pf_button = b, pf_buttons = bs, pf_placed = False, pf_destroyed = False\<rparr>],
       picker := Some (length (pickers t)),
       app := (app t)\<lparr>after_queue := after_queue (app t) @ [length (pickers t)]\<rparr>\<rparr>"
    by blast
  show "picker (d t) = Some (length (pickers t))"
    "length (pickers (d t)) = Suc (length (pickers t))"
    "\<forall>q < length (pickers t). pickers (d t) ! q = pickers t ! q"
    "pf_button (pickers (d t) ! length (pickers t)) = b"
    "\<not> pf_placed (pickers (d t) ! length (pickers t))"
    "\<not> pf_destroyed (pickers (d t) ! length (pickers t))"
    "app (d t) = (app t)\<lparr>after_queue := after_queue (app t) @ [length (pickers t)]\<rparr>"
    "\<forall>x. w_image (widgets (d t) x) = w_image (widgets t x)"
    "\<forall>x. w_state (widgets (d t) x) = w_state (widgets t x)"
    "node_enum (d t) = node_enum t \<and> node_file (d t) = node_file t
         \<and> network_enum (d t) = network_enum t \<and> annotation_enum (d t) = annotation_enum t"
    "dialogs (d t) = dialogs t \<and> marker_tool (d t) = marker_tool t"
    by (simp_all add: eq nth_append select_radio_apply)
qed

lemma draw_picker_keeps_open:
  assumes "d = draw_node_picker \<or> d = draw_network_picker \<or> d = draw_annotation_picker"
    and "q \<in> set (open_pickers t)"
  shows "q \<in> set (open_pickers (d t))"
proof -
  from assms(1) obtain b where "d = draw_node_picker \<and> b = node_button t
         \<or> d = draw_network_picker \<and> b = network_button t
         \<or> d = draw_annotation_picker \<and> b = annotation_button t"
    by blast
  from draw_picker_effect(2,3) [OF this] assms(2) show ?thesis
    by (simp add: open_pickers_iff)
qed

lemma draw_pickers_keep_open:
  assumes "q \<in> set (open_pickers t)"
  shows "q \<in> set (open_pickers (draw_node_picker t))"
    and "q \<in> set (open_pickers (draw_network_picker t))"
    and "q \<in> set (open_pickers (draw_annotation_picker t))"
  using assms by (simp_all add: draw_picker_keeps_open)

lemma exec_keeps_open:
  assumes "\<forall>target. c \<noteq> Call_button_release target" and "q \<in> set (open_pickers t)"
  shows "q \<in> set (open_pickers (exec c t))"
  using assms
  by (cases c; simp)
    (erule run_after_keeps_open | erule draw_pickers_keep_open
      | (erule open_kept, simp add: pickers_kept))+

text \<open>Closing: a button release destroys the picker whose \<^verbatim>\<open>_show\<close> installed the handler.\<close>

lemma bind_all_release_call_picker_func:
  "bind_all_release (app (call_picker_func func bar_image t)) = bind_all_release (app t)"
  by (cases func)
    (simp_all add: call_picker_func_def update_button_def update_annotation_def Let_def split_def
       new_dialog_def dialog_show_def dialog_destroy_def split: option.split)

lemma destroy_closes:
  "q \<notin> set (open_pickers (PickerFrame__show_resume (PickerFrame_destroy q t)))"
  by (simp add: open_pickers_iff PickerFrame__show_resume_def PickerFrame_destroy_def
      update_picker_def Let_def is_open_def)

lemma button_release_closes:
  assumes "bind_all_release (app t) = Some q"
  shows "q \<notin> set (open_pickers (button_release target t))"
proof -
  let ?t1 = "case target of
                  None \<Rightarrow> t
                | Some (p, i) \<Rightarrow>
                    if p < length (pickers t) \<and> is_open (pickers t ! p)
                       \<and> i < length (pf_buttons (pickers t ! p))
                    then (let b = pf_buttons (pickers t ! p) ! i
                          in call_picker_func (pb_func b) (pb_bar_image b) t)
                    else t"
  from assms have "bind_all_release (app ?t1) = Some q"
    by (auto simp: Let_def bind_all_release_call_picker_func split: option.split)
  then have "button_release target t = PickerFrame__show_resume (PickerFrame_destroy q ?t1)"
    by (simp only: button_release_def Let_def option.case)
  then show ?thesis
    by (simp only: destroy_closes not_False_eq_True)
qed

text \<open>
  Claim C8, as stated, fails on the code. The claim: at most one picker is open at any time,
  and opening a new picker while another is open closes the first one before the second
  opens. No method closes a picker when another is opened: \<^verbatim>\<open>draw_node_picker\<close>,
  \<^verbatim>\<open>draw_network_picker\<close> and \<^verbatim>\<open>draw_annotation_picker\<close> create a new \<^verbatim>\<open>PickerFrame\<close> and
  overwrite \<^verbatim>\<open>self.picker\<close>. With the node picker open, opening the network picker leaves both
  open, whether the second is drawn after the first was shown or before, and none of the
  first picker's callbacks has run (the canvas mode is untouched).
\<close>

theorem second_picker_opens_beside_first_counterexample:
  "open_pickers (run [Call_draw_node_picker, Call_run_after] (Toolbar_init app0)) = [0]
   \<and> open_pickers (run [Call_draw_node_picker, Call_run_after, Call_draw_network_picker,
        Call_run_after] (Toolbar_init app0)) = [0, 1]
   \<and> open_pickers (run [Call_draw_node_picker, Call_draw_network_picker, Call_run_after,
        Call_run_after] (Toolbar_init app0)) = [0, 1]
   \<and> picker (run [Call_draw_node_picker, Call_run_after, Call_draw_network_picker,
        Call_run_after] (Toolbar_init app0)) = Some 1
   \<and> canvas_mode (app (run [Call_draw_node_picker, Call_run_after, Call_draw_network_picker,
        Call_run_after] (Toolbar_init app0))) = GraphMode_SELECT"
  by code_simp

text \<open>
  Claim C8, amended. The toolbar refers to one picker at a time: each of the three
  \<^verbatim>\<open>draw_..._picker\<close> methods appends one new picker, not yet placed, owned by its button,
  makes it \<^verbatim>\<open>self.picker\<close> and schedules its \<^verbatim>\<open>_show\<close>; it leaves every earlier picker as it
  was and runs no option callback (button images, the icon fields and the canvas are
  unchanged). \<^verbatim>\<open>_show\<close> touches no picker but its own. No call other than a button release
  ever closes an open picker; a button release closes the picker whose \<^verbatim>\<open>_show\<close> installed
  the release handler. So an earlier picker is not closed by opening a new one.
\<close>

theorem opening_picker_closes_none:
  "((d = draw_node_picker \<and> b = node_button t
      \<or> d = draw_network_picker \<and> b = network_button t
      \<or> d = draw_annotation_picker \<and> b = annotation_button t) \<longrightarrow>
        picker (d t) = Some (length (pickers t))
      \<and> length (pickers (d t)) = Suc (length (pickers t))
      \<and> (\<forall>q < length (pickers t). pickers (d t) ! q = pickers t ! q)
      \<and> pf_button (pickers (d t) ! length (pickers t)) = b
      \<and> \<not> pf_placed (pickers (d t) ! length (pickers t))
      \<and> \<not> pf_destroyed (pickers (d t) ! length (pickers t))
      \<and> app (d t) = (app t)\<lparr>after_queue := after_queue (app t) @ [length (pickers t)]\<rparr>
      \<and> (\<forall>x. w_image (widgets (d t) x) = w_image (widgets t x))
      \<and> node_enum (d t) = node_enum t \<and> node_file (d t) = node_file t
      \<and> network_enum (d t) = network_enum t \<and> annotation_enum (d t) = annotation_enum t)
   \<and> (\<forall>q. q \<noteq> p \<longrightarrow> pickers (PickerFrame__show_open p t) ! q = pickers t ! q)
   \<and> ((\<forall>target. c \<noteq> Call_button_release target)
         \<longrightarrow> set (open_pickers t) \<subseteq> set (open_pickers (exec c t)))
   \<and> (bind_all_release (app t) = Some r
         \<longrightarrow> r \<notin> set (open_pickers (button_release target t)))"
proof -
  have A: "picker (d t) = Some (length (pickers t))
      \<and> length (pickers (d t)) = Suc (length (pickers t))
      \<and> (\<forall>q < length (pickers t). pickers (d t) ! q = pickers t ! q)
      \<and> pf_button (pickers (d t) ! length (pickers t)) = b
      \<and> \<not> pf_placed (pickers (d t) ! length (pickers t))
      \<and> \<not> pf_destroyed (pickers (d t) ! length (pickers t))
      \<and> app (d t) = (app t)\<lparr>after_queue := after_queue (app t) @ [length (pickers t)]\<rparr>
      \<and> (\<forall>x. w_image (widgets (d t) x) = w_image (widgets t x))
      \<and> node_enum (d t) = node_enum t \<and> node_file (d t) = node_file t
      \<and> network_enum (d t) = network_enum t \<and> annotation_enum (d t) = annotation_enum t"
    if "d = draw_node_picker \<and> b = node_button t
      \<or> d = draw_network_picker \<and> b = network_button t
      \<or> d = draw_annotation_picker \<and> b = annotation_button t"
    using draw_picker_effect(1-8,10) [OF that] by blast
  have B: "\<forall>q. q \<noteq> p \<longrightarrow> pickers (PickerFrame__show_open p t) ! q = pickers t ! q"
    by (simp add: show_open_pickers)
  have C: "set (open_pickers t) \<subseteq> set (open_pickers (exec c t))"
    if "\<forall>target. c \<noteq> Call_button_release target"
    using exec_keeps_open [OF that] by blast
  have D: "r \<notin> set (open_pickers (button_release target t))"
    if "bind_all_release (app t) = Some r"
    using that by (rule button_release_closes)
  from A B C D show ?thesis by blast
qed

theorem opening_picker_closes_none_witness:
  "open_pickers (run [Call_draw_node_picker, Call_run_after] (Toolbar_init app0)) = [0]
   \<and> bind_all_release (app (run [Call_draw_node_picker, Call_run_after] (Toolbar_init app0))) = Some 0
   \<and> picker (draw_network_picker (run [Call_draw_node_picker, Call_run_after] (Toolbar_init app0)))
       = Some 1
   \<and> 0 \<in> set (open_pickers (exec Call_draw_network_picker
         (run [Call_draw_node_picker, Call_run_after] (Toolbar_init app0))))
   \<and> 0 \<notin> set (open_pickers (button_release None
         (run [Call_draw_node_picker, Call_run_after] (Toolbar_init app0))))"
proof -
  let ?s = "run [Call_draw_node_picker, Call_run_after] (Toolbar_init app0)"
  have o: "open_pickers ?s = [0]" by code_simp
  have b: "bind_all_release (app ?s) = Some 0" by code_simp
  have l: "length (pickers ?s) = 1" by code_simp
  note T = opening_picker_closes_none [where d = draw_network_picker and t = ?s
      and b = "network_button ?s" and c = Call_draw_network_picker and r = 0 and target = None]
  from T have "picker (draw_network_picker ?s) = Some (length (pickers ?s))"
    by blast
  with l have p: "picker (draw_network_picker ?s) = Some 1" by simp
  from T have "set (open_pickers ?s) \<subseteq> set (open_pickers (exec Call_draw_network_picker ?s))"
    by blast
  with o have k: "0 \<in> set (open_pickers (exec Call_draw_network_picker ?s))"
    by simp
  from T b have c: "0 \<notin> set (open_pickers (button_release None ?s))"
    by blast
  from o b p k c show ?thesis by blast
qed

end
